theory Spec2Isabelle
  imports Complex_Main
begin

section \<open>Values shared by the adapters\<close>

text \<open>
  JSON data: what a tool call receives as its arguments and what the Google APIs return.
  An object is the list of its members; a member is looked up with \<open>map_of\<close>. Numbers
  are rationals. Where a JavaScript value may also be \<open>undefined\<close>, the type is
  \<open>json option\<close> and \<open>None\<close> is \<open>undefined\<close>.
\<close>

datatype json =
    JNull
  | JBool bool
  | JNum rat
  | JStr string
  | JArr "json list"
  | JObj "(string \<times> json) list"

text \<open>
  A JavaScript value, as far as \<open>JSON.stringify\<close> tells values apart: \<open>undefined\<close>, for
  which it returns \<open>undefined\<close>; JSON data, for which it returns the text; and the values
  on which it throws a \<open>TypeError\<close>, a \<open>BigInt\<close> and an object that refers to itself.
\<close>

datatype js_value =
    Undefined_value
  | Data json
  | BigInt int
  | Circular

text \<open>
  A value thrown by the program or by a library it calls. \<open>Error\<close> is an instance of the
  JavaScript \<open>Error\<close> class with its message and no \<open>cause\<close> member; \<open>ErrorCause\<close> is
  one that has a \<open>cause\<close> member, with that member's value; \<open>AuthenticationError\<close> is
  the subclass declared in the auth service, with its message and its code; \<open>NonError\<close>
  is any thrown value that is not an \<open>Error\<close>.
\<close>

datatype thrown =
    Error string
  | ErrorCause string js_value
  | AuthenticationError string string
  | NonError js_value

definition newline :: char where
  "newline = CHR 0x0A"

text \<open>The decimal digits of a natural number, as JavaScript writes a whole number.\<close>

definition digit :: "nat \<Rightarrow> char" where
  "digit d = char_of (d + 48)"

function decimal_digits :: "nat \<Rightarrow> string \<Rightarrow> string" where
  "decimal_digits n acc =
     (let acc' = digit (n mod 10) # acc
      in if n div 10 = 0 then acc' else decimal_digits (n div 10) acc')"
  by pat_completeness auto
termination
  by (relation "measure fst") (auto simp add: Let_def)

definition number_text :: "nat \<Rightarrow> string" where
  "number_text n = decimal_digits n []"

section \<open>Drive adapter: \<open>searchFiles\<close>\<close>

text \<open>
  Strings are lists of characters. The two characters the escaping is about are written
  by their codes: the backslash (0x5C) and the single quote (0x27).
\<close>

definition backslash :: char where
  "backslash = CHR 0x5C"

definition quote :: char where
  "quote = CHR 0x27"

text \<open>
  \<open>s.replace(/c/g, r)\<close> for a one-character pattern: every occurrence of \<open>c\<close> is replaced
  by \<open>r\<close>, scanning left to right; the replacement text is not scanned again.
\<close>

definition replace_all :: "char \<Rightarrow> string \<Rightarrow> string \<Rightarrow> string" where
  "replace_all c r s = concat (map (\<lambda>x. if x = c then r else [x]) s)"

text \<open>
  \<^verbatim>\<open>query.replace(/\\/g, "\\\\").replace(/'/g, "\\'")\<close>: first every backslash is doubled,
  then every single quote gets a backslash in front.
\<close>

definition escapedQuery :: "string \<Rightarrow> string" where
  "escapedQuery query =
     replace_all quote [backslash, quote] (replace_all backslash [backslash, backslash] query)"

definition formattedQuery :: "string \<Rightarrow> string" where
  "formattedQuery query = ''fullText contains '' @ [quote] @ escapedQuery query @ [quote]"

record list_params =
  lp_q :: string
  lp_pageSize :: int
  lp_fields :: string

record search_input =
  si_query :: string
  si_page_size :: int

text \<open>
  \<open>searchFiles\<close> issues one \<open>files.list\<close> call. The Drive API is a parameter: it answers a
  request with a thrown value or with the \<open>files\<close> member of the response (\<open>None\<close> when
  the response has none, which the code turns into the empty list).
\<close>

definition searchFiles_params :: "search_input \<Rightarrow> list_params" where
  "searchFiles_params input =
     \<lparr>lp_q = formattedQuery (si_query input),
      lp_pageSize = si_page_size input,
      lp_fields = ''files(id, name, mimeType, modifiedTime, size)''\<rparr>"

definition searchFiles ::
  "(list_params \<Rightarrow> thrown + 'file list option) \<Rightarrow> search_input \<Rightarrow> thrown + 'file list" where
  "searchFiles files_list input =
     (case files_list (searchFiles_params input) of
        Inl e \<Rightarrow> Inl e
      | Inr None \<Rightarrow> Inr []
      | Inr (Some fs) \<Rightarrow> Inr fs)"

text \<open>
  The body of a quoted literal of the Drive query language, read back: a backslash takes
  the next character literally, a single quote that no backslash precedes ends the
  literal early, and so does a backslash with nothing after it (it would swallow the
  closing quote). \<open>literal_value\<close> is \<open>None\<close> in those two cases and the decoded text
  otherwise; \<open>unescaped_quote\<close> only looks for the bare quote.
\<close>

fun literal_value :: "string \<Rightarrow> string option" where
  "literal_value [] = Some []"
| "literal_value [c] = (if c = backslash \<or> c = quote then None else Some [c])"
| "literal_value (c # d # cs) =
     (if c = backslash then map_option ((#) d) (literal_value cs)
      else if c = quote then None
      else map_option ((#) c) (literal_value (d # cs)))"

fun unescaped_quote :: "string \<Rightarrow> bool" where
  "unescaped_quote [] = False"
| "unescaped_quote [c] = (c = quote)"
| "unescaped_quote (c # d # cs) =
     (if c = backslash then unescaped_quote cs
      else c = quote \<or> unescaped_quote (d # cs))"

section \<open>Sheets adapter: grid ranges\<close>

record grid_range =
  sheetId :: int
  startRowIndex :: int
  endRowIndex :: int
  startColumnIndex :: int
  endColumnIndex :: int

text \<open>\<open>s.split(sep)\<close> for a one-character separator: the pieces between the separators.\<close>

fun split_on :: "char \<Rightarrow> string \<Rightarrow> string list" where
  "split_on sep [] = [[]]"
| "split_on sep (c # cs) =
     (if c = sep then [] # split_on sep cs
      else (case split_on sep cs of
              [] \<Rightarrow> [[c]]
            | p # ps \<Rightarrow> (c # p) # ps))"

text \<open>
  \<open>getGridRange\<close> splits the A1 range at the exclamation mark into a sheet name and a
  cell range (either may be undefined, \<open>None\<close>), and then returns a literal.
\<close>

definition getGridRange :: "string \<Rightarrow> grid_range" where
  "getGridRange a1Range =
     (let parts = split_on (CHR ''!'') a1Range;
          sheetName = (if 0 < length parts then Some (parts ! 0) else None);
          cellRange = (if 1 < length parts then Some (parts ! 1) else None)
      in \<lparr>sheetId = 0,
          startRowIndex = 0,
          endRowIndex = 1000,
          startColumnIndex = 0,
          endColumnIndex = 26\<rparr>)"

datatype 'fmt sheets_request =
    RepeatCell grid_range 'fmt string
  | MergeCells grid_range string

record 'fmt batch_update =
  bu_spreadsheetId :: string
  bu_requests :: "'fmt sheets_request list"

record 'fmt format_cells_input =
  fc_spreadsheetId :: string
  fc_range :: string
  fc_format :: 'fmt

record merge_cells_input =
  mc_spreadsheetId :: string
  mc_range :: string

text \<open>
  \<open>formatCells\<close> and \<open>mergeCells\<close> each issue one \<open>spreadsheets.batchUpdate\<close> call; the
  Sheets API is a parameter that answers the request with a thrown value or with nothing.
  The functions with the suffix \<open>_request\<close> are the request bodies the two methods build.
\<close>

definition formatCells_request :: "'fmt format_cells_input \<Rightarrow> 'fmt batch_update" where
  "formatCells_request input =
     \<lparr>bu_spreadsheetId = fc_spreadsheetId input,
      bu_requests = [RepeatCell (getGridRange (fc_range input)) (fc_format input) ''userEnteredFormat'']\<rparr>"

definition formatCells ::
  "('fmt batch_update \<Rightarrow> thrown + unit) \<Rightarrow> 'fmt format_cells_input \<Rightarrow> thrown + unit" where
  "formatCells batchUpdate input = batchUpdate (formatCells_request input)"

definition mergeCells_request :: "merge_cells_input \<Rightarrow> 'fmt batch_update" where
  "mergeCells_request input =
     \<lparr>bu_spreadsheetId = mc_spreadsheetId input,
      bu_requests = [MergeCells (getGridRange (mc_range input)) ''MERGE_ALL'']\<rparr>"

definition mergeCells ::
  "('fmt batch_update \<Rightarrow> thrown + unit) \<Rightarrow> merge_cells_input \<Rightarrow> thrown + unit" where
  "mergeCells batchUpdate input = batchUpdate (mergeCells_request input)"

definition fixed_grid_range :: grid_range where
  "fixed_grid_range =
     \<lparr>sheetId = 0, startRowIndex = 0, endRowIndex = 1000,
      startColumnIndex = 0, endColumnIndex = 26\<rparr>"

section \<open>Docs adapter: building the update requests\<close>

text \<open>
  The style descriptor of a section (\<open>Style\<close> in the schema file). Every member is
  optional: \<open>None\<close> is \<open>undefined\<close>. Numbers are rationals; the code only tests them
  for being non-zero and passes them on. Enumerations are kept as the strings the API
  receives.
\<close>

type_synonym number = rat

record rgb_color =
  red :: "number option"
  green :: "number option"
  blue :: "number option"

record font_family =
  family :: string
  weight :: "number option"

record style =
  st_bold :: "bool option"
  st_italic :: "bool option"
  st_underline :: "bool option"
  st_strikethrough :: "bool option"
  st_fontSize :: "number option"
  st_foregroundColor :: "rgb_color option"
  st_backgroundColor :: "rgb_color option"
  st_heading :: "string option"
  st_fontFamily :: "font_family option"
  st_alignment :: "string option"
  st_lineSpacing :: "number option"
  st_spaceAbove :: "number option"
  st_spaceBelow :: "number option"
  st_indentStart :: "number option"
  st_indentEnd :: "number option"
  st_indentFirstLine :: "number option"
  st_direction :: "string option"
  st_keepLinesTogether :: "bool option"
  st_keepWithNext :: "bool option"
  st_pageBreakBefore :: "bool option"

record document_section =
  sec_text :: string
  sec_style :: "style option"

record cover_page =
  cp_title :: string
  cp_subtitle :: "string option"
  cp_date :: "string option"

record headers =
  hd_default :: "string option"
  hd_firstPage :: "string option"

record document_content =
  dc_coverPage :: "cover_page option"
  dc_headers :: "headers option"
  dc_footer :: "string option"
  dc_body :: "document_section list option"

text \<open>
  The \<open>content\<close> argument of \<open>updateDocument\<close> is a union that the code tells apart by
  \<open>typeof content === 'string'\<close>, then \<open>'text' in content\<close>, then the rest.
\<close>

datatype update_content =
    PlainText string
  | StyledSection document_section
  | FullDocument document_content


text \<open>
  The parts of the Docs API's request types that the adapter fills in. A colour of a text
  style stands for the nested object \<open>{color: {rgbColor: c}}\<close> that the code builds around
  it. Indices are counted with \<open>length\<close>, one per character of the model's strings, where
  the code counts the UTF-16 units of a JavaScript string.
\<close>

record dimension =
  magnitude :: number
  unit :: string

record weighted_font_family =
  wf_fontFamily :: string
  wf_weight :: number

record text_style =
  ts_bold :: "bool option"
  ts_italic :: "bool option"
  ts_underline :: "bool option"
  ts_strikethrough :: "bool option"
  ts_fontSize :: "dimension option"
  ts_foregroundColor :: "rgb_color option"
  ts_backgroundColor :: "rgb_color option"
  ts_weightedFontFamily :: "weighted_font_family option"

record paragraph_style =
  ps_alignment :: "string option"
  ps_lineSpacing :: "number option"
  ps_spaceAbove :: "dimension option"
  ps_spaceBelow :: "dimension option"
  ps_indentStart :: "dimension option"
  ps_indentEnd :: "dimension option"
  ps_indentFirstLine :: "dimension option"
  ps_direction :: "string option"
  ps_keepLinesTogether :: "bool option"
  ps_keepWithNext :: "bool option"
  ps_pageBreakBefore :: "bool option"
  ps_namedStyleType :: "string option"

record doc_range =
  startIndex :: int
  endIndex :: int

record location =
  segmentId :: "string option"
  index :: int

datatype docs_request =
    DeleteContentRange doc_range
  | InsertText location string
  | UpdateTextStyle doc_range text_style string
  | UpdateParagraphStyle doc_range paragraph_style string
  | InsertPageBreak location
  | CreateHeader string location
  | CreateFooter string location







text \<open>\<open>fields.join(',')\<close>.\<close>

fun join :: "string \<Rightarrow> string list \<Rightarrow> string" where
  "join sep [] = []"
| "join sep [x] = x"
| "join sep (x # y # ys) = x @ sep @ join sep (y # ys)"













text \<open>
  The document that \<open>documents.get\<close> returns, as far as \<open>updateDocument\<close> reads it: the
  body's list of structural elements with their end indices, each level optional. The end
  index of the last element is used, or 1 when anything on the way is missing or zero.
\<close>

record structural_element =
  se_endIndex :: "int option"

record document =
  doc_body_content :: "structural_element list option"





text \<open>
  The revision of the service whose \<open>updateDocument\<close> takes the requests themselves:
  it reads \<open>document_id\<close> and \<open>requests\<close> from its input and sends them in one
  \<open>documents.batchUpdate\<close> call, building nothing. Its input may carry members that it
  does not read; \<open>content\<close> is one. \<open>None\<close> is a member that is absent.
\<close>

record requests_update_input =
  ru_document_id :: string
  ru_requests :: "docs_request list option"
  ru_content :: "update_content option"

definition updateDocument_requests_revision_requests ::
  "requests_update_input \<Rightarrow> docs_request list option" where
  "updateDocument_requests_revision_requests input = ru_requests input"

definition updateDocument_requests_revision ::
  "(string \<Rightarrow> docs_request list option \<Rightarrow> thrown + unit) \<Rightarrow> requests_update_input
     \<Rightarrow> thrown + unit" where
  "updateDocument_requests_revision documents_batchUpdate input =
     documents_batchUpdate (ru_document_id input)
       (updateDocument_requests_revision_requests input)"



section \<open>Auth service\<close>

text \<open>
  A member of an object that may be absent (\<open>undefined\<close>), \<open>null\<close> or a value, as the
  members of the library's \<open>Credentials\<close> type are declared.
\<close>

datatype 'a field = Undefined | Null | Val 'a

text \<open>
  A JavaScript number as far as the service tells numbers apart: a finite one, here a
  whole number (an expiry date is a count of milliseconds), \<open>NaN\<close>, and the two
  infinities.
\<close>

datatype js_number = Finite int | NaN | PosInfinity | NegInfinity

record credentials =
  access_token :: "string field"
  refresh_token :: "string field"
  expiry_date :: "js_number field"
  scope :: "string field"
  token_type :: "string field"
  id_token :: "string field"

text \<open>
  The OAuth client of the library, as far as the service deals with it: the three
  constructor arguments (each may be \<open>undefined\<close>) and the credentials set on it
  (\<open>None\<close> is \<open>null\<close>).
\<close>

record oauth_client =
  oc_clientId :: "string option"
  oc_clientSecret :: "string option"
  oc_redirectUri :: "string option"
  oc_credentials :: "credentials option"

text \<open>
  The client-config file, seen at the type the code reads it at:
  \<open>oauthConfig.installed.client_id\<close>, \<open>.client_secret\<close> and \<open>.redirect_uris[0]\<close>.
  \<open>None\<close> is a member that is not there.
\<close>

record installed_config =
  ic_client_id :: "string option"
  ic_client_secret :: "string option"
  ic_redirect_uris :: "string list option"

record oauth_keys =
  installed :: "installed_config option"

text \<open>
  The file system: the regular files with their contents, the directories, and the paths
  on which the operating system refuses a read, a write or a \<open>mkdir\<close>. The operations are
  those of Node's \<open>fs\<close> module that the service calls; \<open>None\<close> is a thrown I/O error.
  A file can be written when its path is not refused, is not a directory, and its parent
  directory exists; \<open>writeFile\<close> takes the parent directory next to the path.
\<close>

record filesystem =
  fs_files :: "string \<Rightarrow> string option"
  fs_dirs :: "string set"
  fs_denied :: "string set"

definition existsSync :: "filesystem \<Rightarrow> string \<Rightarrow> bool" where
  "existsSync fs path = (fs_files fs path \<noteq> None \<or> path \<in> fs_dirs fs)"

definition readFile :: "filesystem \<Rightarrow> string \<Rightarrow> string option" where
  "readFile fs path = (if path \<in> fs_denied fs then None else fs_files fs path)"

definition mkdirSync :: "filesystem \<Rightarrow> string \<Rightarrow> filesystem option" where
  "mkdirSync fs path =
     (if path \<in> fs_denied fs \<or> fs_files fs path \<noteq> None then None
      else Some (fs\<lparr>fs_dirs := insert path (fs_dirs fs)\<rparr>))"

definition writeFile :: "filesystem \<Rightarrow> string \<Rightarrow> string \<Rightarrow> string \<Rightarrow> filesystem option" where
  "writeFile fs dir path content =
     (if path \<in> fs_denied fs \<or> path \<in> fs_dirs fs \<or> dir \<notin> fs_dirs fs then None
      else Some (fs\<lparr>fs_files := (fs_files fs)(path \<mapsto> content)\<rparr>))"

text \<open>
  What the service gets from outside and does not change: its two paths (read from the
  environment by the constructor), the clock (\<open>Date.now()\<close>, the milliseconds since the
  epoch, a natural number: the clock is not set before the epoch), \<open>path.dirname\<close>, \<open>JSON.stringify\<close> and \<open>JSON.parse\<close> at the two types the
  files are read at (\<open>None\<close> is a syntax error; for the credential file \<open>Some None\<close> is
  the JSON text \<open>null\<close>), and the library's \<open>refreshAccessToken\<close>, which answers with
  the client as the call leaves it and the credentials of the response, or throws
  (\<open>None\<close>).
\<close>

record platform =
  credentialsPath :: string
  oauthPath :: string
  now :: nat
  dirname :: "string \<Rightarrow> string"
  JSON_stringify :: "credentials \<Rightarrow> string"
  JSON_parse_credentials :: "string \<Rightarrow> credentials option option"
  JSON_parse_oauth_keys :: "string \<Rightarrow> oauth_keys option"
  refreshAccessToken :: "oauth_client \<Rightarrow> (oauth_client \<times> credentials) option"

text \<open>
  What a call can change: the two private members of the service, the file system, and
  the trace of the calls that left the process (the refresh endpoint) or wrote to disk.
\<close>

datatype event =
    RefreshCall oauth_client
  | Mkdir string
  | WriteFile string string

record world =
  w_auth :: "oauth_client option"
  w_credentials :: "credentials option"
  w_fs :: filesystem
  w_trace :: "event list"

definition NO_CREDENTIALS :: thrown where
  "NO_CREDENTIALS = AuthenticationError
     ''No saved credentials found. Please run `node dist/index.js auth` to authenticate.''
     ''NO_CREDENTIALS''"

definition INVALID_STATE :: thrown where
  "INVALID_STATE = AuthenticationError
     ''Authentication state is invalid. Please run `node dist/index.js auth` to re-authenticate.''
     ''INVALID_STATE''"

definition REFRESH_FAILED :: thrown where
  "REFRESH_FAILED = AuthenticationError
     ''Failed to refresh access token. Your refresh token may have expired. Please run `node dist/index.js auth` to re-authenticate.''
     ''REFRESH_FAILED''"

definition NO_REFRESH_TOKEN :: thrown where
  "NO_REFRESH_TOKEN = AuthenticationError
     ''No refresh token available. Please run `node dist/index.js auth` to re-authenticate.''
     ''NO_REFRESH_TOKEN''"

definition NO_OAUTH_KEYS :: "platform \<Rightarrow> thrown" where
  "NO_OAUTH_KEYS p = AuthenticationError
     (''OAuth keys file not found at '' @ oauthPath p
        @ ''. Please set up your OAuth credentials first.'')
     ''NO_OAUTH_KEYS''"

definition SAVE_FAILED :: "platform \<Rightarrow> thrown" where
  "SAVE_FAILED p = AuthenticationError
     (''Failed to save credentials to '' @ credentialsPath p
        @ ''. Please check file permissions.'')
     ''SAVE_FAILED''"

definition LOAD_FAILED :: thrown where
  "LOAD_FAILED = AuthenticationError
     ''Failed to load saved credentials. Please run `node dist/index.js auth` to re-authenticate.''
     ''LOAD_FAILED''"

text \<open>\<open>ensureDirectory\<close>: the parent directory is created when nothing exists at its path.\<close>

definition ensureDirectory :: "platform \<Rightarrow> string \<Rightarrow> world \<Rightarrow> world option" where
  "ensureDirectory p filePath w =
     (let dir = dirname p filePath
      in if \<not> existsSync (w_fs w) dir
         then (case mkdirSync (w_fs w) dir of
                 None \<Rightarrow> None
               | Some fs' \<Rightarrow> Some (w\<lparr>w_fs := fs', w_trace := w_trace w @ [Mkdir dir]\<rparr>))
         else Some w)"

text \<open>
  \<open>saveCredentials\<close>: whatever is thrown while the directory is made or the file is
  written is replaced by \<open>SAVE_FAILED\<close>.
\<close>

definition saveCredentials :: "platform \<Rightarrow> credentials \<Rightarrow> world \<Rightarrow> (thrown + unit) \<times> world" where
  "saveCredentials p creds w =
     (case ensureDirectory p (credentialsPath p) w of
        None \<Rightarrow> (Inl (SAVE_FAILED p), w)
      | Some w1 \<Rightarrow>
          (case writeFile (w_fs w1) (dirname p (credentialsPath p)) (credentialsPath p)
                  (JSON_stringify p creds) of
             None \<Rightarrow> (Inl (SAVE_FAILED p), w1)
           | Some fs' \<Rightarrow>
               (Inr (),
                w1\<lparr>w_fs := fs',
                   w_trace := w_trace w1
                     @ [WriteFile (credentialsPath p) (JSON_stringify p creds)]\<rparr>)))"

text \<open>
  \<open>loadSavedCredentials\<close>. The result \<open>Inr None\<close> is the returned \<open>null\<close>. Inside the
  \<open>try\<close>, anything thrown that is not an \<open>AuthenticationError\<close> (an unreadable file, a
  syntax error, reading a member of \<open>undefined\<close>) is replaced by \<open>LOAD_FAILED\<close>. The
  three arguments of the constructor are evaluated before the client is assigned, so a
  failure leaves the service as it was.
\<close>

definition loadSavedCredentials ::
  "platform \<Rightarrow> world \<Rightarrow> (thrown + oauth_client option) \<times> world" where
  "loadSavedCredentials p w =
     (if \<not> existsSync (w_fs w) (credentialsPath p) then (Inr None, w)
      else if \<not> existsSync (w_fs w) (oauthPath p) then (Inl (NO_OAUTH_KEYS p), w)
      else
        (case readFile (w_fs w) (credentialsPath p) of
           None \<Rightarrow> (Inl LOAD_FAILED, w)
         | Some content \<Rightarrow>
        (case JSON_parse_credentials p content of
           None \<Rightarrow> (Inl LOAD_FAILED, w)
         | Some creds \<Rightarrow>
        (case readFile (w_fs w) (oauthPath p) of
           None \<Rightarrow> (Inl LOAD_FAILED, w)
         | Some keys_text \<Rightarrow>
        (case JSON_parse_oauth_keys p keys_text of
           None \<Rightarrow> (Inl LOAD_FAILED, w)
         | Some oauthConfig \<Rightarrow>
        (case installed oauthConfig of
           None \<Rightarrow> (Inl LOAD_FAILED, w)
         | Some inst \<Rightarrow>
        (case ic_redirect_uris inst of
           None \<Rightarrow> (Inl LOAD_FAILED, w)
         | Some uris \<Rightarrow>
             (let auth = \<lparr>oc_clientId = ic_client_id inst,
                          oc_clientSecret = ic_client_secret inst,
                          oc_redirectUri = (case uris of [] \<Rightarrow> None | u # _ \<Rightarrow> Some u),
                          oc_credentials = creds\<rparr>
              in (Inr (Some auth), w\<lparr>w_auth := Some auth, w_credentials := creds\<rparr>)))))))))"

text \<open>
  JavaScript's truthiness of a member: \<open>undefined\<close>, \<open>null\<close>, \<open>0\<close> and the empty string
  are falsy.
\<close>

definition truthy_js_number :: "js_number field \<Rightarrow> bool" where
  "truthy_js_number f =
     (case f of
        Val (Finite n) \<Rightarrow> n \<noteq> 0
      | Val NaN \<Rightarrow> False
      | Val x \<Rightarrow> True
      | _ \<Rightarrow> False)"

text \<open>
  JavaScript's \<open>x > t\<close> and \<open>x <= t\<close> for a number \<open>x\<close> and a finite \<open>t\<close>: both are false
  for \<open>NaN\<close>.
\<close>

definition js_greater :: "js_number \<Rightarrow> int \<Rightarrow> bool" where
  "js_greater x t = (case x of Finite e \<Rightarrow> e > t | PosInfinity \<Rightarrow> True | _ \<Rightarrow> False)"

definition js_at_most :: "js_number \<Rightarrow> int \<Rightarrow> bool" where
  "js_at_most x t = (case x of Finite e \<Rightarrow> e \<le> t | NegInfinity \<Rightarrow> True | _ \<Rightarrow> False)"

definition truthy_str :: "string field \<Rightarrow> bool" where
  "truthy_str f = (case f of Val s \<Rightarrow> s \<noteq> [] | _ \<Rightarrow> False)"

definition fiveMinutes :: int where
  "fiveMinutes = 5 * 60 * 1000"

text \<open>\<open>expiryDate && expiryDate > Date.now() + fiveMinutes\<close>.\<close>

definition expires_later :: "platform \<Rightarrow> credentials \<Rightarrow> bool" where
  "expires_later p creds =
     (truthy_js_number (expiry_date creds)
      \<and> (case expiry_date creds of
            Val x \<Rightarrow> js_greater x (int (now p) + fiveMinutes)
          | _ \<Rightarrow> False))"

text \<open>
  \<open>authenticate\<close>, from its second check on: the service holds a client and credentials,
  or the state is invalid. In the refresh branch the \<open>try\<close> covers the refresh call, the
  assignment and the save, so a failed save also ends in \<open>REFRESH_FAILED\<close>, after the
  new credentials were assigned.
\<close>

definition authenticate_checked :: "platform \<Rightarrow> world \<Rightarrow> (thrown + oauth_client) \<times> world" where
  "authenticate_checked p w =
     (case (w_auth w, w_credentials w) of
        (Some auth, Some creds) \<Rightarrow>
          (if expires_later p creds then (Inr auth, w)
           else if truthy_str (refresh_token creds) then
             (let w1 = w\<lparr>w_trace := w_trace w @ [RefreshCall auth]\<rparr>
              in (case refreshAccessToken p auth of
                    None \<Rightarrow> (Inl REFRESH_FAILED, w1)
                  | Some (auth', response_credentials) \<Rightarrow>
                      (let w2 = w1\<lparr>w_auth := Some auth',
                                    w_credentials := Some response_credentials\<rparr>
                       in (case saveCredentials p response_credentials w2 of
                             (Inl e, w3) \<Rightarrow> (Inl REFRESH_FAILED, w3)
                           | (Inr u, w3) \<Rightarrow> (Inr auth', w3)))))
           else (Inl NO_REFRESH_TOKEN, w))
      | _ \<Rightarrow> (Inl INVALID_STATE, w))"

definition authenticate :: "platform \<Rightarrow> world \<Rightarrow> (thrown + oauth_client) \<times> world" where
  "authenticate p w =
     (if w_auth w = None \<or> w_credentials w = None
      then (case loadSavedCredentials p w of
              (Inl e, w') \<Rightarrow> (Inl e, w')
            | (Inr None, w') \<Rightarrow> (Inl NO_CREDENTIALS, w')
            | (Inr (Some loadedAuth), w') \<Rightarrow> authenticate_checked p w')
      else authenticate_checked p w)"

text \<open>The number of calls of the refresh endpoint in a trace.\<close>

fun refresh_calls :: "event list \<Rightarrow> nat" where
  "refresh_calls [] = 0"
| "refresh_calls (RefreshCall c # es) = Suc (refresh_calls es)"
| "refresh_calls (e # es) = refresh_calls es"

text \<open>The client that \<open>loadSavedCredentials\<close> constructs and sets the credentials on.\<close>

definition new_client :: "installed_config \<Rightarrow> string list \<Rightarrow> credentials option \<Rightarrow> oauth_client" where
  "new_client inst uris creds =
     \<lparr>oc_clientId = ic_client_id inst, oc_clientSecret = ic_client_secret inst,
      oc_redirectUri = (case uris of [] \<Rightarrow> None | u # _ \<Rightarrow> Some u),
      oc_credentials = creds\<rparr>"

subsection \<open>The credential file as JSON text\<close>

text \<open>
  \<open>saveCredentials\<close> writes \<open>JSON.stringify(credentials, null, 2)\<close> and
  \<open>loadSavedCredentials\<close> reads it with \<open>JSON.parse\<close>. This is the platform's
  \<open>JSON.stringify\<close> on a credential record: the members that are not \<open>undefined\<close>, one
  on a line with two spaces in front, here in the order of the record (the platform
  writes them in the order the object got them, and reading does not depend on it);
  \<open>{}\<close> when there is none. A string is written between double quotes with the escapes
  of \<open>JSON.stringify\<close>. A whole number is written in decimal, which is the platform's
  text for a number of magnitude up to \<open>2^53 - 1\<close> (beyond, the platform rounds the
  digits). \<open>null\<close> is written as \<open>null\<close>, and so are \<open>NaN\<close> and the two infinities.
\<close>

definition dquote :: char where
  "dquote = CHR 0x22"

definition hex_digit :: "nat \<Rightarrow> char" where
  "hex_digit d = (if d < 10 then char_of (d + 48) else char_of (d + 87))"

definition quote_char :: "char \<Rightarrow> string" where
  "quote_char c =
     (if c = dquote then [backslash, dquote]
      else if c = backslash then [backslash, backslash]
      else if c = CHR 0x08 then [backslash, CHR ''b'']
      else if c = CHR 0x0C then [backslash, CHR ''f'']
      else if c = CHR 0x0A then [backslash, CHR ''n'']
      else if c = CHR 0x0D then [backslash, CHR ''r'']
      else if c = CHR 0x09 then [backslash, CHR ''t'']
      else if (of_char c :: nat) < 32
        then [backslash, CHR ''u'', CHR ''0'', CHR ''0'',
              hex_digit ((of_char c :: nat) div 16), hex_digit ((of_char c :: nat) mod 16)]
      else [c])"

definition JSON_quote :: "string \<Rightarrow> string" where
  "JSON_quote s = dquote # concat (map quote_char s) @ [dquote]"

definition int_text :: "int \<Rightarrow> string" where
  "int_text n = (if n < 0 then CHR ''-'' # number_text (nat (- n)) else number_text (nat n))"

datatype member_value = NullValue | StringValue string | NumberValue int

definition value_text :: "member_value \<Rightarrow> string" where
  "value_text v =
     (case v of NullValue \<Rightarrow> ''null'' | StringValue s \<Rightarrow> JSON_quote s | NumberValue n \<Rightarrow> int_text n)"

definition member_text :: "string \<times> member_value \<Rightarrow> string" where
  "member_text m = ''  '' @ JSON_quote (fst m) @ '': '' @ value_text (snd m)"

definition stringify_members :: "(string \<times> member_value) list \<Rightarrow> string" where
  "stringify_members ms =
     (if ms = [] then ''{}''
      else ''{'' @ [newline] @ join ('','' @ [newline]) (map member_text ms) @ [newline] @ ''}'')"

definition string_member :: "string \<Rightarrow> string field \<Rightarrow> (string \<times> member_value) list" where
  "string_member key f =
     (case f of Undefined \<Rightarrow> [] | Null \<Rightarrow> [(key, NullValue)] | Val s \<Rightarrow> [(key, StringValue s)])"

definition number_member :: "string \<Rightarrow> js_number field \<Rightarrow> (string \<times> member_value) list" where
  "number_member key f =
     (case f of
        Undefined \<Rightarrow> []
      | Null \<Rightarrow> [(key, NullValue)]
      | Val x \<Rightarrow> (case x of Finite n \<Rightarrow> [(key, NumberValue n)] | _ \<Rightarrow> [(key, NullValue)]))"

definition credentials_members :: "credentials \<Rightarrow> (string \<times> member_value) list" where
  "credentials_members c =
     string_member ''access_token'' (access_token c)
     @ string_member ''refresh_token'' (refresh_token c)
     @ number_member ''expiry_date'' (expiry_date c)
     @ string_member ''scope'' (scope c)
     @ string_member ''token_type'' (token_type c)
     @ string_member ''id_token'' (id_token c)"

definition stringify_credentials :: "credentials \<Rightarrow> string" where
  "stringify_credentials c = stringify_members (credentials_members c)"

subsection \<open>Reading JSON text\<close>

datatype token =
    TLBrace | TRBrace | TLBracket | TRBracket | TColon | TComma
  | TString string | TNumber int | TTrue | TFalse | TNull

definition is_whitespace :: "char \<Rightarrow> bool" where
  "is_whitespace c = (c = CHR 0x20 \<or> c = CHR 0x09 \<or> c = CHR 0x0A \<or> c = CHR 0x0D)"

definition is_digit :: "char \<Rightarrow> bool" where
  "is_digit c = (48 \<le> (of_char c :: nat) \<and> (of_char c :: nat) \<le> 57)"

definition digit_value :: "char \<Rightarrow> nat" where
  "digit_value c = (of_char c :: nat) - 48"

definition hex_value :: "char \<Rightarrow> nat option" where
  "hex_value c =
     (let n = (of_char c :: nat)
      in if 48 \<le> n \<and> n \<le> 57 then Some (n - 48)
         else if 97 \<le> n \<and> n \<le> 102 then Some (n - 87)
         else if 65 \<le> n \<and> n \<le> 70 then Some (n - 55)
         else None)"

definition unescape_char :: "char \<Rightarrow> char option" where
  "unescape_char e =
     (if e = dquote then Some dquote
      else if e = backslash then Some backslash
      else if e = CHR ''/'' then Some (CHR ''/'')
      else if e = CHR ''b'' then Some (CHR 0x08)
      else if e = CHR ''f'' then Some (CHR 0x0C)
      else if e = CHR ''n'' then Some (CHR 0x0A)
      else if e = CHR ''r'' then Some (CHR 0x0D)
      else if e = CHR ''t'' then Some (CHR 0x09)
      else None)"

definition unicode_escape :: "string \<Rightarrow> char option" where
  "unicode_escape hs =
     (case map hex_value hs of
        [Some a, Some b, Some c, Some d] \<Rightarrow>
          (if a = 0 \<and> b = 0 then Some (char_of (16 * c + d)) else None)
      | _ \<Rightarrow> None)"

fun lex_string :: "string \<Rightarrow> (string \<times> string) option" where
  "lex_string [] = None"
| "lex_string (c # cs) =
     (if c = dquote then Some ([], cs)
      else if c = backslash then
        (case cs of
           [] \<Rightarrow> None
         | e # rest \<Rightarrow>
             (if e = CHR ''u'' then
                (case unicode_escape (take 4 rest) of
                   None \<Rightarrow> None
                 | Some ch \<Rightarrow>
                     (case lex_string (drop 4 rest) of
                        None \<Rightarrow> None
                      | Some (s, r) \<Rightarrow> Some (ch # s, r)))
              else
                (case unescape_char e of
                   None \<Rightarrow> None
                 | Some ch \<Rightarrow>
                     (case lex_string rest of
                        None \<Rightarrow> None
                      | Some (s, r) \<Rightarrow> Some (ch # s, r)))))
      else if (of_char c :: nat) < 32 then None
      else (case lex_string cs of None \<Rightarrow> None | Some (s, r) \<Rightarrow> Some (c # s, r)))"

definition digits_value :: "string \<Rightarrow> nat" where
  "digits_value ds = foldl (\<lambda>v d. 10 * v + digit_value d) 0 ds"

definition lex_number :: "string \<Rightarrow> (int \<times> string) option" where
  "lex_number s =
     (let negative = (s \<noteq> [] \<and> hd s = CHR ''-'');
          s1 = (if negative then tl s else s);
          ds = takeWhile is_digit s1;
          rest = dropWhile is_digit s1
      in if ds = [] then None
         else if 1 < length ds \<and> hd ds = CHR ''0'' then None
         else if rest \<noteq> [] \<and> (hd rest = CHR ''.'' \<or> hd rest = CHR ''e'' \<or> hd rest = CHR ''E'')
           then None
         else Some (if negative then - int (digits_value ds) else int (digits_value ds), rest))"

function tokenize :: "string \<Rightarrow> token list option" where
  "tokenize [] = Some []"
| "tokenize (c # cs) =
     (if is_whitespace c then tokenize cs
      else if c = CHR ''{'' then map_option ((#) TLBrace) (tokenize cs)
      else if c = CHR ''}'' then map_option ((#) TRBrace) (tokenize cs)
      else if c = CHR ''['' then map_option ((#) TLBracket) (tokenize cs)
      else if c = CHR '']'' then map_option ((#) TRBracket) (tokenize cs)
      else if c = CHR '':'' then map_option ((#) TColon) (tokenize cs)
      else if c = CHR '','' then map_option ((#) TComma) (tokenize cs)
      else if c = dquote then
        (case lex_string cs of
           None \<Rightarrow> None
         | Some (s, rest) \<Rightarrow> map_option ((#) (TString s)) (tokenize rest))
      else if c = CHR ''-'' \<or> is_digit c then
        (case lex_number (c # cs) of
           None \<Rightarrow> None
         | Some (n, rest) \<Rightarrow> map_option ((#) (TNumber n)) (tokenize rest))
      else if take 4 (c # cs) = ''null'' then map_option ((#) TNull) (tokenize (drop 3 cs))
      else if take 4 (c # cs) = ''true'' then map_option ((#) TTrue) (tokenize (drop 3 cs))
      else if take 5 (c # cs) = ''false'' then map_option ((#) TFalse) (tokenize (drop 4 cs))
      else None)"
  by pat_completeness auto
termination
proof -
  have string_rest: "length r \<le> length cs" if "lex_string cs = Some (s, r)" for cs s r
    using that
  proof (induction cs arbitrary: s r rule: lex_string.induct)
    case 1
    then show ?case by simp
  next
    case (2 c cs)
    then show ?case
      by (fastforce split: if_splits list.splits option.splits)
  qed
  have number_rest: "length r < length s" if "lex_number s = Some (n, r)" for s n r
  proof -
    let ?s1 = "if s \<noteq> [] \<and> hd s = CHR ''-'' then tl s else s"
    from that have ds: "takeWhile is_digit ?s1 \<noteq> []" and r: "r = dropWhile is_digit ?s1"
      by (auto simp add: lex_number_def Let_def split: if_splits)
    have "length (takeWhile is_digit ?s1) + length (dropWhile is_digit ?s1) = length ?s1"
      by (metis length_append takeWhile_dropWhile_id)
    moreover have "0 < length (takeWhile is_digit ?s1)"
      using ds by simp
    moreover have "length ?s1 \<le> length s"
      by simp
    ultimately show ?thesis
      unfolding r by linarith
  qed
  show ?thesis
    by (relation "measure length") (auto dest: string_rest number_rest)
qed

text \<open>
  The values of a token list, by recursive descent. A value is followed by the rest of
  the tokens; the elements of an array and the members of an object are read up to the
  closing bracket. The test that the rest got shorter holds for every input; it is there
  for the recursion to be seen to end.
\<close>

function parse_value :: "token list \<Rightarrow> (json \<times> token list) option"
  and parse_elements :: "token list \<Rightarrow> (json list \<times> token list) option"
  and parse_members :: "token list \<Rightarrow> ((string \<times> json) list \<times> token list) option"
where
  "parse_value [] = None"
| "parse_value (t # ts) =
     (case t of
        TNull \<Rightarrow> Some (JNull, ts)
      | TTrue \<Rightarrow> Some (JBool True, ts)
      | TFalse \<Rightarrow> Some (JBool False, ts)
      | TNumber n \<Rightarrow> Some (JNum (of_int n), ts)
      | TString s \<Rightarrow> Some (JStr s, ts)
      | TLBracket \<Rightarrow>
          (case ts of
             TRBracket # rest \<Rightarrow> Some (JArr [], rest)
           | _ \<Rightarrow> (case parse_elements ts of
                     None \<Rightarrow> None
                   | Some (xs, rest) \<Rightarrow> Some (JArr xs, rest)))
      | TLBrace \<Rightarrow>
          (case ts of
             TRBrace # rest \<Rightarrow> Some (JObj [], rest)
           | _ \<Rightarrow> (case parse_members ts of
                     None \<Rightarrow> None
                   | Some (ms, rest) \<Rightarrow> Some (JObj ms, rest)))
      | _ \<Rightarrow> None)"
| "parse_elements ts =
     (case parse_value ts of
        None \<Rightarrow> None
      | Some (x, rest) \<Rightarrow>
          (case rest of
             TRBracket # rest' \<Rightarrow> Some ([x], rest')
           | TComma # rest' \<Rightarrow>
               (if length rest' < length ts
                then (case parse_elements rest' of
                        None \<Rightarrow> None
                      | Some (xs, rest'') \<Rightarrow> Some (x # xs, rest''))
                else None)
           | _ \<Rightarrow> None))"
| "parse_members [] = None"
| "parse_members [t] = None"
| "parse_members (k # colon # ts) =
     (case (k, colon) of
        (TString key, TColon) \<Rightarrow>
          (case parse_value ts of
             None \<Rightarrow> None
           | Some (x, rest) \<Rightarrow>
               (case rest of
                  TRBrace # rest' \<Rightarrow> Some ([(key, x)], rest')
                | TComma # rest' \<Rightarrow>
                    (if length rest' < length ts
                     then (case parse_members rest' of
                             None \<Rightarrow> None
                           | Some (ms, rest'') \<Rightarrow> Some ((key, x) # ms, rest''))
                     else None)
                | _ \<Rightarrow> None))
      | _ \<Rightarrow> None)"
  by pat_completeness auto
termination
  by (relation "measure (\<lambda>x. case x of
                           Inl ts \<Rightarrow> 2 * length ts
                         | Inr (Inl ts) \<Rightarrow> 2 * length ts + 1
                         | Inr (Inr ts) \<Rightarrow> 2 * length ts + 1)")
     auto

text \<open>
  \<open>JSON.parse\<close>: the value of the whole text, or \<open>None\<close> for the syntax error. Numbers
  are the whole ones, characters the 8-bit ones: a number with a fraction or an exponent
  and a \<open>\u\<close> escape above \<open>00ff\<close> are outside the model and read as errors.
\<close>

definition JSON_parse :: "string \<Rightarrow> json option" where
  "JSON_parse text =
     (case tokenize text of
        None \<Rightarrow> None
      | Some ts \<Rightarrow>
          (case parse_value ts of
             Some (v, []) \<Rightarrow> Some v
           | _ \<Rightarrow> None))"

text \<open>
  The parsed value seen at the type \<open>Credentials\<close>. Of members written twice the last
  one counts. A member of another type than the declared one is outside the model and
  read as absent. \<open>null\<close> and the other falsy values are \<open>None\<close>: the code only tests the
  value for truthiness and reads its members.
\<close>

definition string_field :: "(string \<times> json) list \<Rightarrow> string \<Rightarrow> string field" where
  "string_field ms key =
     (case map_of (rev ms) key of
        None \<Rightarrow> Undefined
      | Some JNull \<Rightarrow> Null
      | Some (JStr s) \<Rightarrow> Val s
      | Some x \<Rightarrow> Undefined)"

definition number_field :: "(string \<times> json) list \<Rightarrow> string \<Rightarrow> js_number field" where
  "number_field ms key =
     (case map_of (rev ms) key of
        None \<Rightarrow> Undefined
      | Some JNull \<Rightarrow> Null
      | Some (JNum r) \<Rightarrow> Val (Finite \<lfloor>r\<rfloor>)
      | Some x \<Rightarrow> Undefined)"

definition credentials_of_members :: "(string \<times> json) list \<Rightarrow> credentials" where
  "credentials_of_members ms =
     \<lparr>access_token = string_field ms ''access_token'',
      refresh_token = string_field ms ''refresh_token'',
      expiry_date = number_field ms ''expiry_date'',
      scope = string_field ms ''scope'',
      token_type = string_field ms ''token_type'',
      id_token = string_field ms ''id_token''\<rparr>"

definition as_credentials :: "json \<Rightarrow> credentials option" where
  "as_credentials v =
     (case v of
        JNull \<Rightarrow> None
      | JBool b \<Rightarrow> (if b then Some (credentials_of_members []) else None)
      | JNum r \<Rightarrow> (if r = 0 then None else Some (credentials_of_members []))
      | JStr s \<Rightarrow> (if s = [] then None else Some (credentials_of_members []))
      | JArr xs \<Rightarrow> Some (credentials_of_members [])
      | JObj ms \<Rightarrow> Some (credentials_of_members ms))"

definition parse_credentials :: "string \<Rightarrow> credentials option option" where
  "parse_credentials text = map_option as_credentials (JSON_parse text)"

text \<open>
  What \<open>JSON.stringify\<close> keeps of a record: a number that is not finite is written as
  \<open>null\<close>, everything else as it is.
\<close>

definition written_expiry :: "js_number field \<Rightarrow> js_number field" where
  "written_expiry f = (case f of Val (Finite n) \<Rightarrow> Val (Finite n) | Val x \<Rightarrow> Null | y \<Rightarrow> y)"

text \<open>
  What the text of a list of members denotes: its tokens, and the members of the object
  that the parser returns.
\<close>

definition value_token :: "member_value \<Rightarrow> token" where
  "value_token v =
     (case v of NullValue \<Rightarrow> TNull | StringValue s \<Rightarrow> TString s | NumberValue n \<Rightarrow> TNumber n)"

definition value_json :: "member_value \<Rightarrow> json" where
  "value_json v =
     (case v of NullValue \<Rightarrow> JNull | StringValue s \<Rightarrow> JStr s | NumberValue n \<Rightarrow> JNum (of_int n))"

fun member_tokens :: "(string \<times> member_value) list \<Rightarrow> token list" where
  "member_tokens [] = []"
| "member_tokens [m] = [TString (fst m), TColon, value_token (snd m)]"
| "member_tokens (m # m' # ms) =
     TString (fst m) # TColon # value_token (snd m) # TComma # member_tokens (m' # ms)"

definition members_json :: "(string \<times> member_value) list \<Rightarrow> (string \<times> json) list" where
  "members_json ms = map (\<lambda>m. (fst m, value_json (snd m))) ms"

text \<open>What follows a value in the text of an object: the end, a comma or a line break.\<close>

definition ends_value :: "string \<Rightarrow> bool" where
  "ends_value rest = (rest = [] \<or> hd rest = CHR '','' \<or> hd rest = newline)"

subsection \<open>An instance\<close>

text \<open>
  A platform, a file system and two credential records to run the service on: the texts
  of the two records and of two client-config files (one of the installed-app shape, one
  of the web-app shape, which has no \<open>installed\<close> member), with \<open>JSON.stringify\<close> and
  \<open>JSON.parse\<close> given on these texts. The clock stands at 1000000; the first record
  expires then, the second an hour later. \<open>json_platform\<close> is the same platform with
  the JSON functions of the previous subsection, and \<open>unending_credentials\<close> a record
  whose expiry date is \<open>Infinity\<close>.
\<close>

definition stale_credentials :: credentials where
  "stale_credentials =
     \<lparr>access_token = Val ''ya29.old'', refresh_token = Val ''1//refresh'',
      expiry_date = Val (Finite 1000000), scope = Val ''https://www.googleapis.com/auth/drive.file'',
      token_type = Val ''Bearer'', id_token = Undefined\<rparr>"

definition renewed_credentials :: credentials where
  "renewed_credentials =
     stale_credentials\<lparr>access_token := Val ''ya29.new'', expiry_date := Val (Finite 4600000)\<rparr>"

definition stale_text :: string where
  \<open>stale_text = ''{"access_token": "ya29.old", "refresh_token": "1//refresh", "expiry_date": 1000000, "scope": "https://www.googleapis.com/auth/drive.file", "token_type": "Bearer"}''\<close>

definition renewed_text :: string where
  \<open>renewed_text = ''{"access_token": "ya29.new", "refresh_token": "1//refresh", "expiry_date": 4600000, "scope": "https://www.googleapis.com/auth/drive.file", "token_type": "Bearer"}''\<close>

definition installed_keys_text :: string where
  \<open>installed_keys_text = ''{"installed": {"client_id": "id", "client_secret": "secret", "redirect_uris": ["http://localhost"]}}''\<close>

definition web_keys_text :: string where
  \<open>web_keys_text = ''{"web": {"client_id": "id", "client_secret": "secret", "redirect_uris": ["http://localhost"]}}''\<close>

definition example_keys :: oauth_keys where
  "example_keys =
     \<lparr>installed = Some \<lparr>ic_client_id = Some ''id'', ic_client_secret = Some ''secret'',
                          ic_redirect_uris = Some [''http://localhost'']\<rparr>\<rparr>"

definition example_platform :: platform where
  "example_platform =
     \<lparr>credentialsPath = ''/home/u/.google/server-creds.json'',
      oauthPath = ''/home/u/.google/oauth.keys.json'',
      now = 1000000,
      dirname = (\<lambda>path. ''/home/u/.google''),
      JSON_stringify = (\<lambda>c. if c = stale_credentials then stale_text
                            else if c = renewed_credentials then renewed_text else ''{}''),
      JSON_parse_credentials =
        (\<lambda>s. if s = stale_text then Some (Some stale_credentials)
             else if s = renewed_text then Some (Some renewed_credentials)
             else if s = ''null'' then Some None else None),
      JSON_parse_oauth_keys =
        (\<lambda>s. if s = installed_keys_text then Some example_keys
             else if s = web_keys_text then Some \<lparr>installed = None\<rparr> else None),
      refreshAccessToken =
        (\<lambda>c. Some (c\<lparr>oc_credentials := Some renewed_credentials\<rparr>, renewed_credentials))\<rparr>"

definition json_platform :: platform where
  "json_platform =
     example_platform\<lparr>JSON_stringify := stringify_credentials,
                      JSON_parse_credentials := parse_credentials\<rparr>"

definition unending_credentials :: credentials where
  "unending_credentials = renewed_credentials\<lparr>expiry_date := Val PosInfinity\<rparr>"

definition example_client :: "credentials \<Rightarrow> oauth_client" where
  "example_client c =
     \<lparr>oc_clientId = Some ''id'', oc_clientSecret = Some ''secret'',
      oc_redirectUri = Some ''http://localhost'', oc_credentials = Some c\<rparr>"

definition example_fs :: "string option \<Rightarrow> string option \<Rightarrow> filesystem" where
  "example_fs creds_file keys_file =
     \<lparr>fs_files = (\<lambda>path. if path = ''/home/u/.google/server-creds.json'' then creds_file
                         else if path = ''/home/u/.google/oauth.keys.json'' then keys_file
                         else None),
      fs_dirs = {''/home/u/.google''},
      fs_denied = {}\<rparr>"

definition fresh_world :: "filesystem \<Rightarrow> world" where
  "fresh_world fs = \<lparr>w_auth = None, w_credentials = None, w_fs = fs, w_trace = []\<rparr>"

definition holding_world :: "credentials \<Rightarrow> world" where
  "holding_world c =
     \<lparr>w_auth = Some (example_client c), w_credentials = Some c,
      w_fs = example_fs (Some stale_text) (Some installed_keys_text), w_trace = []\<rparr>"

section \<open>Tool dispatcher\<close>

subsection \<open>Runtime validation\<close>

text \<open>
  The validation schemas are values of the zod library. A schema is kept as data, with
  the constructors the schema file uses, and \<open>zparse\<close> is the library's \<open>parse\<close> on JSON
  input: \<open>None\<close> when the input is rejected (the library throws), otherwise the output,
  which may be \<open>undefined\<close> for an optional member that is absent. An object schema keeps
  the declared members, in the schema's order, and drops the others; a member whose
  output is \<open>undefined\<close> is left out. \<open>z.instanceof(Buffer)\<close> accepts no JSON value.
\<close>

datatype zod =
    ZString
  | ZNumber "rat option" "rat option"
  | ZBoolean
  | ZAny
  | ZEnum "string list"
  | ZArray zod
  | ZObject "(string \<times> zod) list"
  | ZOptional zod
  | ZDefault zod json
  | ZUnion "zod list"
  | ZInstanceofBuffer

fun zparse :: "zod \<Rightarrow> json option \<Rightarrow> json option option"
  and zparse_shape :: "(string \<times> zod) list \<Rightarrow> (string \<times> json) list \<Rightarrow> (string \<times> json) list option"
  and zparse_elements :: "zod \<Rightarrow> json list \<Rightarrow> json list option"
  and zparse_union :: "zod list \<Rightarrow> json option \<Rightarrow> json option option"
where
  "zparse ZString v = (case v of Some (JStr s) \<Rightarrow> Some v | _ \<Rightarrow> None)"
| "zparse (ZNumber lo hi) v =
     (case v of
        Some (JNum n) \<Rightarrow>
          (if (case lo of None \<Rightarrow> True | Some l \<Rightarrow> l \<le> n)
              \<and> (case hi of None \<Rightarrow> True | Some h \<Rightarrow> n \<le> h)
           then Some v else None)
      | _ \<Rightarrow> None)"
| "zparse ZBoolean v = (case v of Some (JBool b) \<Rightarrow> Some v | _ \<Rightarrow> None)"
| "zparse ZAny v = Some v"
| "zparse (ZEnum values) v =
     (case v of Some (JStr s) \<Rightarrow> (if List.member values s then Some v else None) | _ \<Rightarrow> None)"
| "zparse (ZArray element) v =
     (case v of
        Some (JArr xs) \<Rightarrow>
          (case zparse_elements element xs of None \<Rightarrow> None | Some ys \<Rightarrow> Some (Some (JArr ys)))
      | _ \<Rightarrow> None)"
| "zparse (ZObject shape) v =
     (case v of
        Some (JObj members) \<Rightarrow>
          (case zparse_shape shape members of None \<Rightarrow> None | Some out \<Rightarrow> Some (Some (JObj out)))
      | _ \<Rightarrow> None)"
| "zparse (ZOptional inner) v = (case v of None \<Rightarrow> Some None | Some x \<Rightarrow> zparse inner v)"
| "zparse (ZDefault inner d) v = (case v of None \<Rightarrow> zparse inner (Some d) | Some x \<Rightarrow> zparse inner v)"
| "zparse (ZUnion options) v = zparse_union options v"
| "zparse ZInstanceofBuffer v = None"
| "zparse_shape [] members = Some []"
| "zparse_shape (kt # shape) members =
     (case zparse (snd kt) (map_of members (fst kt)) of
        None \<Rightarrow> None
      | Some out \<Rightarrow>
          (case zparse_shape shape members of
             None \<Rightarrow> None
           | Some rest \<Rightarrow> Some (case out of None \<Rightarrow> rest | Some x \<Rightarrow> (fst kt, x) # rest)))"
| "zparse_elements element [] = Some []"
| "zparse_elements element (x # xs) =
     (case zparse element (Some x) of
        None \<Rightarrow> None
      | Some out \<Rightarrow>
          (case zparse_elements element xs of
             None \<Rightarrow> None
           | Some rest \<Rightarrow> Some (case out of None \<Rightarrow> JNull # rest | Some y \<Rightarrow> y # rest)))"
| "zparse_union [] v = None"
| "zparse_union (t # ts) v = (case zparse t v of Some out \<Rightarrow> Some out | None \<Rightarrow> zparse_union ts v)"

text \<open>
  \<open>Schema.parse(args)\<close> for a schema made by \<open>z.object\<close>, given by its shape: the
  validated object's members, or \<open>None\<close> when the library throws.
\<close>

definition schema_parse :: "(string \<times> zod) list \<Rightarrow> json option \<Rightarrow> (string \<times> json) list option" where
  "schema_parse shape args =
     (case args of Some (JObj members) \<Rightarrow> zparse_shape shape members | _ \<Rightarrow> None)"

text \<open>The schemas of the schema file that the dispatcher uses, each by its shape.\<close>

definition SearchInputSchema :: "(string \<times> zod) list" where
  "SearchInputSchema =
     [(''query'', ZString), (''page_size'', ZDefault (ZNumber None None) (JNum 10))]"

definition CreateDocInputSchema :: "(string \<times> zod) list" where
  "CreateDocInputSchema = [(''title'', ZString)]"

definition GetDocContentInputSchema :: "(string \<times> zod) list" where
  "GetDocContentInputSchema = [(''document_id'', ZString)]"

definition UpdateDocContentInputSchema :: "(string \<times> zod) list" where
  "UpdateDocContentInputSchema = [(''document_id'', ZString), (''requests'', ZArray ZAny)]"

definition unit_interval :: zod where
  "unit_interval = ZNumber (Some 0) (Some 1)"

definition SheetsColorSchema :: "(string \<times> zod) list" where
  "SheetsColorSchema =
     [(''red'', unit_interval), (''green'', unit_interval), (''blue'', unit_interval),
      (''alpha'', ZOptional unit_interval)]"

definition border_schema :: zod where
  "border_schema =
     ZObject [(''style'', ZEnum [''SOLID'', ''DOTTED'', ''DASHED'']),
              (''color'', ZObject SheetsColorSchema)]"

definition CellFormatSchema :: "(string \<times> zod) list" where
  "CellFormatSchema =
     [(''backgroundColor'', ZOptional (ZObject SheetsColorSchema)),
      (''textFormat'', ZOptional (ZObject
         [(''foregroundColor'', ZOptional (ZObject SheetsColorSchema)),
          (''fontFamily'', ZOptional ZString),
          (''fontSize'', ZOptional (ZNumber None None)),
          (''bold'', ZOptional ZBoolean),
          (''italic'', ZOptional ZBoolean),
          (''strikethrough'', ZOptional ZBoolean),
          (''underline'', ZOptional ZBoolean)])),
      (''horizontalAlignment'', ZOptional (ZEnum [''LEFT'', ''CENTER'', ''RIGHT''])),
      (''verticalAlignment'', ZOptional (ZEnum [''TOP'', ''MIDDLE'', ''BOTTOM''])),
      (''borders'', ZOptional (ZObject
         [(''top'', ZOptional border_schema),
          (''bottom'', ZOptional border_schema),
          (''left'', ZOptional border_schema),
          (''right'', ZOptional border_schema)])),
      (''numberFormat'', ZOptional (ZObject
         [(''type'', ZEnum [''TEXT'', ''NUMBER'', ''CURRENCY'', ''DATE'', ''TIME'', ''DATETIME'',
                            ''PERCENTAGE'']),
          (''pattern'', ZOptional ZString)]))]"

definition CreateSpreadsheetSchema :: "(string \<times> zod) list" where
  "CreateSpreadsheetSchema =
     [(''title'', ZString),
      (''sheets'', ZOptional (ZArray (ZObject
         [(''title'', ZString),
          (''gridProperties'', ZOptional (ZObject
             [(''rowCount'', ZOptional (ZNumber (Some 1) None)),
              (''columnCount'', ZOptional (ZNumber (Some 1) None)),
              (''frozenRowCount'', ZOptional (ZNumber (Some 0) None)),
              (''frozenColumnCount'', ZOptional (ZNumber (Some 0) None))]))])))]"

definition major_dimension :: zod where
  "major_dimension = ZOptional (ZEnum [''ROWS'', ''COLUMNS''])"

definition UpdateValuesSchema :: "(string \<times> zod) list" where
  "UpdateValuesSchema =
     [(''spreadsheetId'', ZString), (''range'', ZString),
      (''values'', ZArray (ZArray ZString)), (''majorDimension'', major_dimension)]"

definition FormatCellsSchema :: "(string \<times> zod) list" where
  "FormatCellsSchema =
     [(''spreadsheetId'', ZString), (''range'', ZString), (''format'', ZObject CellFormatSchema)]"

definition DimensionOperationSchema :: "(string \<times> zod) list" where
  "DimensionOperationSchema =
     [(''spreadsheetId'', ZString),
      (''sheetId'', ZNumber None None),
      (''dimension'', ZEnum [''ROWS'', ''COLUMNS'']),
      (''startIndex'', ZNumber None None),
      (''endIndex'', ZOptional (ZNumber None None)),
      (''operation'', ZEnum [''INSERT'', ''DELETE'', ''RESIZE'']),
      (''size'', ZOptional (ZNumber None None))]"

definition MergeCellsSchema :: "(string \<times> zod) list" where
  "MergeCellsSchema = [(''spreadsheetId'', ZString), (''range'', ZString)]"

definition GetValuesSchema :: "(string \<times> zod) list" where
  "GetValuesSchema =
     [(''spreadsheetId'', ZString), (''range'', ZString), (''majorDimension'', major_dimension)]"

definition CreateFolderSchema :: "(string \<times> zod) list" where
  "CreateFolderSchema =
     [(''name'', ZString), (''parents'', ZOptional (ZArray ZString)),
      (''description'', ZOptional ZString)]"

definition CreateFileSchema :: "(string \<times> zod) list" where
  "CreateFileSchema =
     [(''name'', ZString), (''mimeType'', ZString),
      (''parents'', ZOptional (ZArray ZString)), (''description'', ZOptional ZString),
      (''content'', ZUnion [ZString, ZInstanceofBuffer])]"

definition UpdateFileSchema :: "(string \<times> zod) list" where
  "UpdateFileSchema =
     [(''fileId'', ZString), (''content'', ZUnion [ZString, ZInstanceofBuffer]),
      (''mimeType'', ZString)]"

definition GetFileSchema :: "(string \<times> zod) list" where
  "GetFileSchema = [(''fileId'', ZString), (''fields'', ZOptional ZString)]"

definition ListFilesSchema :: "(string \<times> zod) list" where
  "ListFilesSchema =
     [(''query'', ZOptional ZString), (''pageSize'', ZOptional (ZNumber None None)),
      (''fields'', ZOptional ZString), (''orderBy'', ZOptional ZString)]"

definition UpdateFileMetadataSchema :: "(string \<times> zod) list" where
  "UpdateFileMetadataSchema =
     [(''fileId'', ZString), (''name'', ZOptional ZString), (''description'', ZOptional ZString),
      (''mimeType'', ZOptional ZString), (''addParents'', ZOptional (ZArray ZString)),
      (''removeParents'', ZOptional (ZArray ZString))]"

subsection \<open>The advertised input schema of \<open>docs_update_content\<close>\<close>

text \<open>
  The tool catalog advertises a JSON Schema for each tool. \<open>js_valid\<close> is JSON Schema
  validation for the keywords the catalog uses: \<open>type\<close>, \<open>properties\<close>, \<open>required\<close>,
  \<open>items\<close>, \<open>anyOf\<close>, \<open>minimum\<close> and \<open>maximum\<close>. A member that \<open>properties\<close> does not
  name is allowed, as the catalog never sets \<open>additionalProperties\<close>.
\<close>

datatype jsonschema =
    SString
  | SNumber "rat option" "rat option"
  | SBoolean
  | SArray jsonschema
  | SObject "(string \<times> jsonschema) list" "string list"
  | SAnyOf "jsonschema list"

fun js_valid :: "jsonschema \<Rightarrow> json \<Rightarrow> bool"
  and js_valid_properties :: "(string \<times> jsonschema) list \<Rightarrow> (string \<times> json) list \<Rightarrow> bool"
  and js_valid_items :: "jsonschema \<Rightarrow> json list \<Rightarrow> bool"
  and js_valid_any :: "jsonschema list \<Rightarrow> json \<Rightarrow> bool"
where
  "js_valid SString v = (case v of JStr s \<Rightarrow> True | _ \<Rightarrow> False)"
| "js_valid (SNumber lo hi) v =
     (case v of
        JNum n \<Rightarrow> (case lo of None \<Rightarrow> True | Some l \<Rightarrow> l \<le> n)
                  \<and> (case hi of None \<Rightarrow> True | Some h \<Rightarrow> n \<le> h)
      | _ \<Rightarrow> False)"
| "js_valid SBoolean v = (case v of JBool b \<Rightarrow> True | _ \<Rightarrow> False)"
| "js_valid (SArray items) v = (case v of JArr xs \<Rightarrow> js_valid_items items xs | _ \<Rightarrow> False)"
| "js_valid (SObject properties required) v =
     (case v of
        JObj members \<Rightarrow>
          js_valid_properties properties members
          \<and> list_all (\<lambda>k. map_of members k \<noteq> None) required
      | _ \<Rightarrow> False)"
| "js_valid (SAnyOf options) v = js_valid_any options v"
| "js_valid_properties [] members = True"
| "js_valid_properties (kt # properties) members =
     ((case map_of members (fst kt) of None \<Rightarrow> True | Some x \<Rightarrow> js_valid (snd kt) x)
      \<and> js_valid_properties properties members)"
| "js_valid_items items [] = True"
| "js_valid_items items (x # xs) = (js_valid items x \<and> js_valid_items items xs)"
| "js_valid_any [] v = False"
| "js_valid_any (t # ts) v = (js_valid t v \<or> js_valid_any ts v)"

definition advertised_color :: jsonschema where
  "advertised_color =
     SObject [(''red'', SNumber (Some 0) (Some 1)), (''green'', SNumber (Some 0) (Some 1)),
              (''blue'', SNumber (Some 0) (Some 1))] []"

definition advertised_style :: jsonschema where
  "advertised_style =
     SObject [(''bold'', SBoolean), (''italic'', SBoolean), (''fontSize'', SNumber None None),
              (''foregroundColor'', advertised_color)] []"

definition advertised_section :: jsonschema where
  "advertised_section = SObject [(''text'', SString), (''style'', advertised_style)] [''text'']"

definition docs_update_content_inputSchema :: jsonschema where
  "docs_update_content_inputSchema =
     SObject
       [(''document_id'', SString),
        (''content'', SAnyOf
           [SString,
            advertised_section,
            SObject
              [(''coverPage'', SObject [(''title'', SString), (''subtitle'', SString),
                                        (''date'', SString)] [''title'']),
               (''headers'', SObject [(''default'', SString), (''firstPage'', SString)] []),
               (''footer'', SString),
               (''body'', SArray advertised_section)] []])]
       [''document_id'', ''content'']"

subsection \<open>The call-tool handler\<close>

text \<open>
  A file as the Drive adapter returns it, as far as the handler reads it; a member may be
  absent or \<open>null\<close>.
\<close>

record drive_file =
  df_id :: "string field"
  df_name :: "string field"
  df_mimeType :: "string field"

record content_block =
  cb_type :: string
  cb_text :: string

record response =
  content_blocks :: "content_block list"
  isError :: bool

text \<open>
  What the handler uses of the JavaScript runtime and of the zod library:
  \<open>JSON.stringify(v)\<close>, \<open>JSON.stringify(v, null, 2)\<close>, the conversion of a number, array
  or object to a string inside a template literal, the message of the error that a
  failed \<open>parse\<close> throws, and the message of the \<open>TypeError\<close> that \<open>JSON.stringify\<close>
  throws on a value it cannot write.
\<close>

record runtime =
  JSON_stringify_compact :: "json \<Rightarrow> string"
  JSON_stringify_indented :: "json \<Rightarrow> string"
  String_of :: "json \<Rightarrow> string"
  zod_message :: "(string \<times> zod) list \<Rightarrow> json option \<Rightarrow> string"
  TypeError_message :: "js_value \<Rightarrow> string"

text \<open>
  The adapter methods the handler calls. Each takes the validated input and answers with
  a thrown value or with its result; results that the handler does not read are \<open>unit\<close>.
\<close>

record services =
  svc_searchFiles :: "(string \<times> json) list \<Rightarrow> thrown + drive_file list"
  svc_createFolder :: "(string \<times> json) list \<Rightarrow> thrown + drive_file"
  svc_createFile :: "(string \<times> json) list \<Rightarrow> thrown + drive_file"
  svc_updateFile :: "(string \<times> json) list \<Rightarrow> thrown + unit"
  svc_getFile :: "(string \<times> json) list \<Rightarrow> thrown + json"
  svc_listFiles :: "(string \<times> json) list \<Rightarrow> thrown + json"
  svc_updateFileMetadata :: "(string \<times> json) list \<Rightarrow> thrown + unit"
  svc_createDocument :: "(string \<times> json) list \<Rightarrow> thrown + string"
  svc_getDocumentContent :: "(string \<times> json) list \<Rightarrow> thrown + string"
  svc_updateDocument :: "(string \<times> json) list \<Rightarrow> thrown + unit"
  svc_createSpreadsheet :: "(string \<times> json) list \<Rightarrow> thrown + string"
  svc_updateValues :: "(string \<times> json) list \<Rightarrow> thrown + unit"
  svc_formatCells :: "(string \<times> json) list \<Rightarrow> thrown + unit"
  svc_dimensionOperation :: "(string \<times> json) list \<Rightarrow> thrown + unit"
  svc_mergeCells :: "(string \<times> json) list \<Rightarrow> thrown + unit"
  svc_getValues :: "(string \<times> json) list \<Rightarrow> thrown + string list list"

text \<open>The adapter calls a tool call makes, by method name and input, in order.\<close>

datatype service_call = ServiceCall string "(string \<times> json) list"

text \<open>A value inside a template literal.\<close>

definition template_field :: "string field \<Rightarrow> string" where
  "template_field f = (case f of Undefined \<Rightarrow> ''undefined'' | Null \<Rightarrow> ''null'' | Val s \<Rightarrow> s)"

definition template_json :: "runtime \<Rightarrow> json option \<Rightarrow> string" where
  "template_json rt v =
     (case v of
        None \<Rightarrow> ''undefined''
      | Some JNull \<Rightarrow> ''null''
      | Some (JBool b) \<Rightarrow> (if b then ''true'' else ''false'')
      | Some (JStr s) \<Rightarrow> s
      | Some x \<Rightarrow> String_of rt x)"

definition text_response :: "string \<Rightarrow> bool \<Rightarrow> response" where
  "text_response t err = \<lparr>content_blocks = [\<lparr>cb_type = ''text'', cb_text = t\<rparr>], isError = err\<rparr>"

text \<open>
  One \<open>case\<close> of the handler's \<open>switch\<close>: the arguments are parsed with the case's schema,
  the adapter method is called with the validated input, and the result is put into a
  text block. A failed parse throws before the adapter is called; what the adapter
  throws is thrown on. The outcome is what the \<open>try\<close> block throws or returns, with the
  adapter calls made.
\<close>

definition tool_case ::
  "runtime \<Rightarrow> (string \<times> zod) list \<Rightarrow> string \<Rightarrow> ((string \<times> json) list \<Rightarrow> thrown + 'r)
     \<Rightarrow> ((string \<times> json) list \<Rightarrow> 'r \<Rightarrow> string) \<Rightarrow> json option
     \<Rightarrow> (thrown + response) \<times> service_call list" where
  "tool_case rt schema method adapter text args =
     (case schema_parse schema args of
        None \<Rightarrow> (Inl (Error (zod_message rt schema args)), [])
      | Some input \<Rightarrow>
          (case adapter input of
             Inl e \<Rightarrow> (Inl e, [ServiceCall method input])
           | Inr result \<Rightarrow> (Inr (text_response (text input result) False),
                            [ServiceCall method input])))"

definition values_json :: "string list list \<Rightarrow> json" where
  "values_json rows = JArr (map (\<lambda>row. JArr (map JStr row)) rows)"

text \<open>
  The \<open>try\<close> block of the handler: the \<open>switch\<close> over the tool name, with the \<open>default\<close>
  that throws. (The two log lines before the \<open>switch\<close> write to the error stream only.)
\<close>

definition callTool_try ::
  "runtime \<Rightarrow> services \<Rightarrow> string \<Rightarrow> json option \<Rightarrow> (thrown + response) \<times> service_call list" where
  "callTool_try rt svc name args =
     (if name = ''search'' then
        tool_case rt SearchInputSchema ''searchFiles'' (svc_searchFiles svc)
          (\<lambda>input files.
             ''Found '' @ number_text (length files) @ '' files:'' @ [newline]
             @ join [newline]
                 (map (\<lambda>file. template_field (df_name file) @ '' (''
                                @ template_field (df_mimeType file) @ '')'') files))
          args
      else if name = ''drive_create_folder'' then
        tool_case rt CreateFolderSchema ''createFolder'' (svc_createFolder svc)
          (\<lambda>input folder. ''Created folder with ID: '' @ template_field (df_id folder)) args
      else if name = ''drive_create_file'' then
        tool_case rt CreateFileSchema ''createFile'' (svc_createFile svc)
          (\<lambda>input file. ''Created file with ID: '' @ template_field (df_id file)) args
      else if name = ''drive_update_file'' then
        tool_case rt UpdateFileSchema ''updateFile'' (svc_updateFile svc)
          (\<lambda>input u. ''File updated successfully'') args
      else if name = ''drive_get_file'' then
        tool_case rt GetFileSchema ''getFile'' (svc_getFile svc)
          (\<lambda>input file. JSON_stringify_indented rt file) args
      else if name = ''drive_list_files'' then
        tool_case rt ListFilesSchema ''listFiles'' (svc_listFiles svc)
          (\<lambda>input files. JSON_stringify_indented rt files) args
      else if name = ''drive_update_metadata'' then
        tool_case rt UpdateFileMetadataSchema ''updateFileMetadata'' (svc_updateFileMetadata svc)
          (\<lambda>input u. ''File metadata updated successfully'') args
      else if name = ''docs_create'' then
        tool_case rt CreateDocInputSchema ''createDocument'' (svc_createDocument svc)
          (\<lambda>input documentId. ''Created document with ID: '' @ documentId) args
      else if name = ''docs_get_content'' then
        tool_case rt GetDocContentInputSchema ''getDocumentContent'' (svc_getDocumentContent svc)
          (\<lambda>input content. content) args
      else if name = ''docs_update_content'' then
        tool_case rt UpdateDocContentInputSchema ''updateDocument'' (svc_updateDocument svc)
          (\<lambda>input u. ''Document updated successfully'') args
      else if name = ''sheets_create'' then
        tool_case rt CreateSpreadsheetSchema ''createSpreadsheet'' (svc_createSpreadsheet svc)
          (\<lambda>input spreadsheetId. ''Created spreadsheet with ID: '' @ spreadsheetId) args
      else if name = ''sheets_update_values'' then
        tool_case rt UpdateValuesSchema ''updateValues'' (svc_updateValues svc)
          (\<lambda>input u. ''Values updated successfully'') args
      else if name = ''sheets_format_cells'' then
        tool_case rt FormatCellsSchema ''formatCells'' (svc_formatCells svc)
          (\<lambda>input u. ''Cell formatting applied successfully'') args
      else if name = ''sheets_dimension_operation'' then
        tool_case rt DimensionOperationSchema ''dimensionOperation'' (svc_dimensionOperation svc)
          (\<lambda>input u. template_json rt (map_of input ''operation'')
                       @ '' operation completed successfully'') args
      else if name = ''sheets_merge_cells'' then
        tool_case rt MergeCellsSchema ''mergeCells'' (svc_mergeCells svc)
          (\<lambda>input u. ''Cells merged successfully'') args
      else if name = ''sheets_get_values'' then
        tool_case rt GetValuesSchema ''getValues'' (svc_getValues svc)
          (\<lambda>input values. JSON_stringify_indented rt (values_json values)) args
      else (Inl (Error ''Tool not found''), []))"

text \<open>
  \<open>JSON.stringify(v)\<close> inside a concatenation: the text, \<open>undefined\<close> written out when
  the call returns \<open>undefined\<close>, or the \<open>TypeError\<close> that the call throws.
\<close>

definition stringify_in_text :: "runtime \<Rightarrow> js_value \<Rightarrow> thrown + string" where
  "stringify_in_text rt v =
     (case v of
        Undefined_value \<Rightarrow> Inr ''undefined''
      | Data x \<Rightarrow> Inr (JSON_stringify_compact rt x)
      | BigInt n \<Rightarrow> Inl (Error (TypeError_message rt v))
      | Circular \<Rightarrow> Inl (Error (TypeError_message rt v)))"

text \<open>
  The message the \<open>catch\<close> block builds: the message of an \<open>Error\<close>, followed by its
  \<open>cause\<close> when it has that member, or the JSON text of a thrown value that is not an
  \<open>Error\<close>. The two calls of \<open>JSON.stringify\<close> are not guarded, so what they throw
  leaves the block: the result is then \<open>Inl\<close>.
\<close>

definition errorMessage :: "runtime \<Rightarrow> thrown \<Rightarrow> thrown + string" where
  "errorMessage rt error =
     (case error of
        Error message \<Rightarrow> Inr (''An error occurred: '' @ message)
      | ErrorCause message cause \<Rightarrow>
          (case stringify_in_text rt cause of
             Inl t \<Rightarrow> Inl t
           | Inr text \<Rightarrow>
               Inr (''An error occurred: '' @ message @ [newline] @ ''Cause: '' @ text))
      | AuthenticationError message code \<Rightarrow> Inr (''An error occurred: '' @ message)
      | NonError v \<Rightarrow>
          (case stringify_in_text rt v of
             Inl t \<Rightarrow> Inl t
           | Inr text \<Rightarrow> Inr (''An error occurred: '' @ text)))"

text \<open>
  The handler: the \<open>try\<close> block, and the \<open>catch\<close> block that turns what was thrown into
  an error response. \<open>Inl\<close> in the result is a value thrown out of the handler.
\<close>

definition callTool ::
  "runtime \<Rightarrow> services \<Rightarrow> string \<Rightarrow> json option \<Rightarrow> (thrown + response) \<times> service_call list" where
  "callTool rt svc name args =
     (case callTool_try rt svc name args of
        (Inl error, calls) \<Rightarrow>
          (case errorMessage rt error of
             Inl t \<Rightarrow> (Inl t, calls)
           | Inr message \<Rightarrow> (Inr (text_response message True), calls))
      | (Inr result, calls) \<Rightarrow> (Inr result, calls))"

text \<open>The names of the tools in the catalog that the list-tools handler returns.\<close>

definition tool_catalog :: "string list" where
  "tool_catalog =
     [''search'', ''drive_create_folder'', ''drive_create_file'', ''drive_update_file'',
      ''drive_get_file'', ''drive_list_files'', ''drive_update_metadata'',
      ''docs_create'', ''docs_get_content'', ''docs_update_content'',
      ''sheets_create'', ''sheets_update_values'', ''sheets_format_cells'',
      ''sheets_dimension_operation'', ''sheets_merge_cells'', ''sheets_get_values'']"

text \<open>
  Whether a tool call's arguments are an object with a member \<open>requests\<close> that is an
  array.
\<close>

definition has_requests_array :: "json option \<Rightarrow> bool" where
  "has_requests_array args =
     (case args of
        Some (JObj members) \<Rightarrow>
          (case map_of members ''requests'' of Some (JArr xs) \<Rightarrow> True | _ \<Rightarrow> False)
      | _ \<Rightarrow> False)"

text \<open>
  The schema each catalog tool's arguments are parsed with, and the value an adapter
  method throws for a tool and a validated input (\<open>None\<close> when it returns).
\<close>

definition thrown_by :: "thrown + 'r \<Rightarrow> thrown option" where
  "thrown_by outcome = (case outcome of Inl e \<Rightarrow> Some e | Inr r \<Rightarrow> None)"

definition tool_schema :: "string \<Rightarrow> (string \<times> zod) list" where
  "tool_schema name =
     (if name = ''search'' then SearchInputSchema
      else if name = ''drive_create_folder'' then CreateFolderSchema
      else if name = ''drive_create_file'' then CreateFileSchema
      else if name = ''drive_update_file'' then UpdateFileSchema
      else if name = ''drive_get_file'' then GetFileSchema
      else if name = ''drive_list_files'' then ListFilesSchema
      else if name = ''drive_update_metadata'' then UpdateFileMetadataSchema
      else if name = ''docs_create'' then CreateDocInputSchema
      else if name = ''docs_get_content'' then GetDocContentInputSchema
      else if name = ''docs_update_content'' then UpdateDocContentInputSchema
      else if name = ''sheets_create'' then CreateSpreadsheetSchema
      else if name = ''sheets_update_values'' then UpdateValuesSchema
      else if name = ''sheets_format_cells'' then FormatCellsSchema
      else if name = ''sheets_dimension_operation'' then DimensionOperationSchema
      else if name = ''sheets_merge_cells'' then MergeCellsSchema
      else if name = ''sheets_get_values'' then GetValuesSchema
      else [])"

definition adapter_error :: "services \<Rightarrow> string \<Rightarrow> (string \<times> json) list \<Rightarrow> thrown option" where
  "adapter_error svc name input =
     (if name = ''search'' then thrown_by (svc_searchFiles svc input)
      else if name = ''drive_create_folder'' then thrown_by (svc_createFolder svc input)
      else if name = ''drive_create_file'' then thrown_by (svc_createFile svc input)
      else if name = ''drive_update_file'' then thrown_by (svc_updateFile svc input)
      else if name = ''drive_get_file'' then thrown_by (svc_getFile svc input)
      else if name = ''drive_list_files'' then thrown_by (svc_listFiles svc input)
      else if name = ''drive_update_metadata'' then thrown_by (svc_updateFileMetadata svc input)
      else if name = ''docs_create'' then thrown_by (svc_createDocument svc input)
      else if name = ''docs_get_content'' then thrown_by (svc_getDocumentContent svc input)
      else if name = ''docs_update_content'' then thrown_by (svc_updateDocument svc input)
      else if name = ''sheets_create'' then thrown_by (svc_createSpreadsheet svc input)
      else if name = ''sheets_update_values'' then thrown_by (svc_updateValues svc input)
      else if name = ''sheets_format_cells'' then thrown_by (svc_formatCells svc input)
      else if name = ''sheets_dimension_operation'' then thrown_by (svc_dimensionOperation svc input)
      else if name = ''sheets_merge_cells'' then thrown_by (svc_mergeCells svc input)
      else if name = ''sheets_get_values'' then thrown_by (svc_getValues svc input)
      else None)"

subsection \<open>An instance\<close>

text \<open>
  A runtime and adapters to run the handler on. Every adapter method answers; the search
  of \<open>failing_services\<close> throws an error whose cause is JSON data, the search of
  \<open>circular_services\<close> one whose cause is an object that refers to itself.
\<close>

definition example_runtime :: runtime where
  \<open>example_runtime =
     \<lparr>JSON_stringify_compact =
        (\<lambda>v. if v = JObj [(''code'', JNum 429)] then ''{"code":429}'' else ''null''),
      JSON_stringify_indented = (\<lambda>v. ''{}''),
      String_of = (\<lambda>v. ''[object Object]''),
      zod_message = (\<lambda>schema args. ''[{"code": "invalid_type", "message": "Required"}]''),
      TypeError_message =
        (\<lambda>v. case v of BigInt n \<Rightarrow> ''Do not know how to serialize a BigInt''
                         | _ \<Rightarrow> ''Converting circular structure to JSON'')\<rparr>\<close>

definition example_file :: drive_file where
  "example_file = \<lparr>df_id = Val ''f1'', df_name = Val ''report'', df_mimeType = Val ''text/plain''\<rparr>"

definition example_services :: services where
  "example_services =
     \<lparr>svc_searchFiles = (\<lambda>input. Inr [example_file]),
      svc_createFolder = (\<lambda>input. Inr example_file),
      svc_createFile = (\<lambda>input. Inr example_file),
      svc_updateFile = (\<lambda>input. Inr ()),
      svc_getFile = (\<lambda>input. Inr (JObj [(''id'', JStr ''f1'')])),
      svc_listFiles = (\<lambda>input. Inr (JObj [(''files'', JArr [])])),
      svc_updateFileMetadata = (\<lambda>input. Inr ()),
      svc_createDocument = (\<lambda>input. Inr ''doc1''),
      svc_getDocumentContent = (\<lambda>input. Inr ''Hello''),
      svc_updateDocument = (\<lambda>input. Inr ()),
      svc_createSpreadsheet = (\<lambda>input. Inr ''sheet1''),
      svc_updateValues = (\<lambda>input. Inr ()),
      svc_formatCells = (\<lambda>input. Inr ()),
      svc_dimensionOperation = (\<lambda>input. Inr ()),
      svc_mergeCells = (\<lambda>input. Inr ()),
      svc_getValues = (\<lambda>input. Inr [[''a'', ''b'']])\<rparr>"

definition failing_services :: services where
  "failing_services =
     example_services
       \<lparr>svc_searchFiles :=
          (\<lambda>input. Inl (ErrorCause ''Rate limit exceeded'' (Data (JObj [(''code'', JNum 429)]))))\<rparr>"

definition circular_services :: services where
  "circular_services =
     example_services
       \<lparr>svc_searchFiles := (\<lambda>input. Inl (ErrorCause ''Request failed'' Circular))\<rparr>"

text \<open>
  Arguments for \<open>docs_update_content\<close>: as the catalog advertises them, and with a
  \<open>requests\<close> array added.
\<close>

definition advertised_arguments :: json where
  "advertised_arguments = JObj [(''document_id'', JStr ''doc1''), (''content'', JStr ''Hello'')]"

definition both_arguments :: json where
  "both_arguments =
     JObj [(''document_id'', JStr ''doc1''), (''content'', JStr ''Hello''), (''requests'', JArr [])]"

section \<open>Properties of the Drive search filter\<close>

lemma replace_all_Cons:
  "replace_all c r (x # xs) = (if x = c then r else [x]) @ replace_all c r xs"
  by (simp add: replace_all_def)

lemma replace_all_append:
  "replace_all c r (xs @ ys) = replace_all c r xs @ replace_all c r ys"
  by (simp add: replace_all_def)

lemma backslash_neq_quote: "backslash \<noteq> quote"
  by (simp add: backslash_def quote_def)

lemma escapedQuery_Nil: "escapedQuery [] = []"
  by (simp add: escapedQuery_def replace_all_def)

lemma escapedQuery_Cons:
  "escapedQuery (c # cs) =
     (if c = backslash then [backslash, backslash]
      else if c = quote then [backslash, quote]
      else [c]) @ escapedQuery cs"
  using backslash_neq_quote
  by (auto simp add: escapedQuery_def replace_all_def)

lemma literal_value_plain:
  "c \<noteq> backslash \<Longrightarrow> c \<noteq> quote \<Longrightarrow> literal_value (c # cs) = map_option ((#) c) (literal_value cs)"
  by (cases cs) auto

lemma unescaped_quote_plain:
  "c \<noteq> backslash \<Longrightarrow> c \<noteq> quote \<Longrightarrow> unescaped_quote (c # cs) = unescaped_quote cs"
  by (cases cs) auto

lemma literal_value_escapedQuery: "literal_value (escapedQuery query) = Some query"
  by (induction query) (simp_all add: escapedQuery_Nil escapedQuery_Cons literal_value_plain)

lemma unescaped_quote_escapedQuery: "\<not> unescaped_quote (escapedQuery query)"
  by (induction query) (simp_all add: escapedQuery_Nil escapedQuery_Cons unescaped_quote_plain)

text \<open>
  C5. \<open>searchFiles\<close> escapes each backslash and then each single quote of the query and
  sends the filter \<open>fullText contains '<escaped>'\<close>. For the query \<open>foo's bar\<close> the filter is
  \<open>fullText contains 'foo\'s bar'\<close>. For every query, the text between the two delimiting
  quotes holds no single quote that is not escaped, and reading that text back by the
  escaping rules gives the query again.
\<close>

theorem searchFiles_escapes_query:
  "lp_q (searchFiles_params input) = ''fullText contains '' @ [quote] @ escapedQuery (si_query input) @ [quote]
   \<and> escapedQuery (''foo'' @ [quote] @ ''s bar'') = ''foo'' @ [backslash, quote] @ ''s bar''
   \<and> formattedQuery (''foo'' @ [quote] @ ''s bar'')
       = ''fullText contains '' @ [quote] @ ''foo'' @ [backslash, quote] @ ''s bar'' @ [quote]
   \<and> \<not> unescaped_quote (escapedQuery (si_query input))
   \<and> literal_value (escapedQuery (si_query input)) = Some (si_query input)"
proof -
  have ex: "escapedQuery (''foo'' @ [quote] @ ''s bar'') = ''foo'' @ [backslash, quote] @ ''s bar''"
    by (simp add: escapedQuery_def replace_all_def backslash_def quote_def)
  show ?thesis
    using ex unescaped_quote_escapedQuery [of "si_query input"]
      literal_value_escapedQuery [of "si_query input"]
    by (simp add: searchFiles_params_def formattedQuery_def)
qed

section \<open>Properties of the grid range\<close>

text \<open>
  C4. For every A1 range string, the grid range that \<open>formatCells\<close> and \<open>mergeCells\<close> put
  into their batch-update request is the constant with sheet id 0, rows 0 to 1000 and
  columns 0 to 26, whatever sheet name or cell bounds the string holds.
\<close>

theorem getGridRange_constant:
  "getGridRange a1Range = fixed_grid_range
   \<and> bu_requests (formatCells_request input)
       = [RepeatCell fixed_grid_range (fc_format input) ''userEnteredFormat'']
   \<and> bu_requests (mergeCells_request minput) = [MergeCells fixed_grid_range ''MERGE_ALL'']
   \<and> formatCells batchUpdate input
       = batchUpdate \<lparr>bu_spreadsheetId = fc_spreadsheetId input,
            bu_requests = [RepeatCell fixed_grid_range (fc_format input) ''userEnteredFormat'']\<rparr>
   \<and> mergeCells batchUpdate' minput
       = batchUpdate' \<lparr>bu_spreadsheetId = mc_spreadsheetId minput,
            bu_requests = [MergeCells fixed_grid_range ''MERGE_ALL'']\<rparr>"
  by (simp add: getGridRange_def fixed_grid_range_def formatCells_request_def
      mergeCells_request_def formatCells_def mergeCells_def Let_def)

section \<open>Properties of the document update\<close>










section \<open>Properties of the JSON text\<close>

lemma of_char_digit: "d < 10 \<Longrightarrow> (of_char (digit d) :: nat) = d + 48"
  by (simp add: digit_def)

lemma is_digit_digit: "d < 10 \<Longrightarrow> is_digit (digit d)"
  by (simp add: is_digit_def of_char_digit)

lemma digit_value_digit: "d < 10 \<Longrightarrow> digit_value (digit d) = d"
  by (simp add: digit_value_def of_char_digit)

lemma decimal_digits_step:
  "decimal_digits n acc =
     (if n div 10 = 0 then digit (n mod 10) # acc
      else decimal_digits (n div 10) (digit (n mod 10) # acc))"
  by (subst decimal_digits.simps) (simp add: Let_def)

lemma decimal_digits_acc: "decimal_digits n acc = decimal_digits n [] @ acc"
proof (induction n arbitrary: acc rule: less_induct)
  case (less n)
  show ?case
  proof (cases "n div 10 = 0")
    case True
    then show ?thesis
      by (simp add: decimal_digits_step [of n])
  next
    case False
    then have lt: "n div 10 < n" by simp
    have "decimal_digits n acc = decimal_digits (n div 10) [] @ digit (n mod 10) # acc"
      using False less.IH [OF lt, of "digit (n mod 10) # acc"]
      by (simp add: decimal_digits_step [of n])
    moreover have "decimal_digits n [] = decimal_digits (n div 10) [] @ [digit (n mod 10)]"
      using False less.IH [OF lt, of "[digit (n mod 10)]"]
      by (simp add: decimal_digits_step [of n])
    ultimately show ?thesis by simp
  qed
qed

lemma number_text_rec:
  "number_text n = (if n < 10 then [digit n] else number_text (n div 10) @ [digit (n mod 10)])"
proof (cases "n < 10")
  case True
  then show ?thesis by (simp add: number_text_def decimal_digits_step [of n])
next
  case False
  then have "n div 10 \<noteq> 0" by simp
  then have "decimal_digits n [] = decimal_digits (n div 10) [digit (n mod 10)]"
    by (simp add: decimal_digits_step [of n])
  then show ?thesis
    using False decimal_digits_acc [of "n div 10" "[digit (n mod 10)]"]
    by (simp add: number_text_def)
qed

lemma number_text_props:
  "number_text n \<noteq> [] \<and> (\<forall>c \<in> set (number_text n). is_digit c)
   \<and> digits_value (number_text n) = n
   \<and> (hd (number_text n) = CHR ''0'' \<longrightarrow> n = 0)"
proof (induction n rule: less_induct)
  case (less n)
  show ?case
  proof (cases "n < 10")
    case True
    then have nt: "number_text n = [digit n]"
      using number_text_rec [of n] by simp
    have "digit n = CHR ''0'' \<Longrightarrow> n = 0"
    proof -
      assume "digit n = CHR ''0''"
      then have "(of_char (digit n) :: nat) = of_char (CHR ''0'')" by simp
      then show "n = 0" using True by (simp add: of_char_digit)
    qed
    then show ?thesis
      using True nt by (auto simp add: is_digit_digit digits_value_def digit_value_digit)
  next
    case False
    then have nt: "number_text n = number_text (n div 10) @ [digit (n mod 10)]"
      using number_text_rec [of n] by simp
    have lt: "n div 10 < n" using False by simp
    have ge: "n div 10 \<noteq> 0" using False by simp
    note ih = less.IH [OF lt]
    have "digits_value (number_text n) = 10 * (n div 10) + n mod 10"
      using ih by (simp add: nt digits_value_def digit_value_digit)
    moreover have "hd (number_text n) = hd (number_text (n div 10))"
      using ih by (simp add: nt)
    ultimately show ?thesis
      using ih ge by (auto simp add: nt is_digit_digit)
  qed
qed

lemma number_text_length: "1 < length (number_text n) \<Longrightarrow> hd (number_text n) \<noteq> CHR ''0''"
proof
  assume len: "1 < length (number_text n)" and "hd (number_text n) = CHR ''0''"
  then have "n = 0" using number_text_props [of n] by simp
  then have "number_text n = [digit 0]" using number_text_rec [of n] by simp
  then show False using len by simp
qed


lemma takeWhile_digits:
  assumes "\<forall>c \<in> set ds. is_digit c" and "ends_value rest"
  shows "takeWhile is_digit (ds @ rest) = ds \<and> dropWhile is_digit (ds @ rest) = rest"
proof -
  have "rest = [] \<or> \<not> is_digit (hd rest)"
    using assms(2) by (auto simp add: ends_value_def is_digit_def newline_def)
  then have "takeWhile is_digit rest = [] \<and> dropWhile is_digit rest = rest"
    by (cases rest) auto
  then show ?thesis
    using assms(1) by (simp add: takeWhile_append2 dropWhile_append2)
qed

lemma lex_number_nat:
  assumes "ends_value rest"
  shows "lex_number (number_text k @ rest) = Some (int k, rest)"
proof -
  note props = number_text_props [of k]
  have first: "hd (number_text k @ rest) \<noteq> CHR ''-''"
    using props by (cases "number_text k") (auto simp add: is_digit_def)
  have tw: "takeWhile is_digit (number_text k @ rest) = number_text k"
       "dropWhile is_digit (number_text k @ rest) = rest"
    using takeWhile_digits [of "number_text k" rest] props assms by simp_all
  have rest: "rest \<noteq> [] \<Longrightarrow> hd rest \<noteq> CHR ''.'' \<and> hd rest \<noteq> CHR ''e'' \<and> hd rest \<noteq> CHR ''E''"
    using assms by (auto simp add: ends_value_def newline_def)
  show ?thesis
    using first tw rest props number_text_length [of k]
    by (auto simp add: lex_number_def Let_def)
qed

lemma lex_number_int:
  assumes "ends_value rest"
  shows "lex_number (int_text n @ rest) = Some (n, rest)"
proof (cases "n < 0")
  case False
  then show ?thesis
    using lex_number_nat [OF assms, of "nat n"] by (simp add: int_text_def)
next
  case True
  note props = number_text_props [of "nat (- n)"]
  have tw: "takeWhile is_digit (number_text (nat (- n)) @ rest) = number_text (nat (- n))"
       "dropWhile is_digit (number_text (nat (- n)) @ rest) = rest"
    using takeWhile_digits [of "number_text (nat (- n))" rest] props assms by simp_all
  have rest: "rest \<noteq> [] \<Longrightarrow> hd rest \<noteq> CHR ''.'' \<and> hd rest \<noteq> CHR ''e'' \<and> hd rest \<noteq> CHR ''E''"
    using assms by (auto simp add: ends_value_def newline_def)
  show ?thesis
    using True tw rest props number_text_length [of "nat (- n)"]
    by (auto simp add: lex_number_def Let_def int_text_def)
qed

lemma hex_value_hex_digit: "d < 16 \<Longrightarrow> hex_value (hex_digit d) = Some d"
  by (auto simp add: hex_value_def hex_digit_def Let_def)

lemma unicode_escape_control:
  assumes "(of_char c :: nat) < 32"
  shows "unicode_escape [CHR ''0'', CHR ''0'', hex_digit ((of_char c :: nat) div 16),
                         hex_digit ((of_char c :: nat) mod 16)] = Some c"
proof -
  have "hex_value (CHR ''0'') = Some 0"
    by (simp add: hex_value_def)
  moreover have "hex_value (hex_digit ((of_char c :: nat) div 16)) = Some ((of_char c :: nat) div 16)"
    using assms by (intro hex_value_hex_digit) simp
  moreover have "hex_value (hex_digit ((of_char c :: nat) mod 16)) = Some ((of_char c :: nat) mod 16)"
    by (intro hex_value_hex_digit) simp
  ultimately show ?thesis
    by (simp add: unicode_escape_def)
qed

lemma lex_string_quote_char:
  assumes "lex_string tail = Some (s, r)"
  shows "lex_string (quote_char c @ tail) = Some (c # s, r)"
proof -
  consider (dq) "c = dquote" | (bs) "c = backslash"
    | (sp) "c \<noteq> dquote" "c \<noteq> backslash"
           "c = CHR 0x08 \<or> c = CHR 0x0C \<or> c = CHR 0x0A \<or> c = CHR 0x0D \<or> c = CHR 0x09"
    | (ctl) "c \<noteq> dquote" "c \<noteq> backslash" "c \<noteq> CHR 0x08" "c \<noteq> CHR 0x0C" "c \<noteq> CHR 0x0A"
            "c \<noteq> CHR 0x0D" "c \<noteq> CHR 0x09" "(of_char c :: nat) < 32"
    | (plain) "c \<noteq> dquote" "c \<noteq> backslash" "\<not> (of_char c :: nat) < 32"
    by (cases "(of_char c :: nat) < 32") auto
  then show ?thesis
  proof cases
    case dq
    then show ?thesis
      using assms by (simp add: quote_char_def unescape_char_def dquote_def backslash_def)
  next
    case bs
    then show ?thesis
      using assms by (simp add: quote_char_def unescape_char_def dquote_def backslash_def)
  next
    case sp
    then show ?thesis
      using assms by (auto simp add: quote_char_def unescape_char_def dquote_def backslash_def)
  next
    case ctl
    have "quote_char c = [backslash, CHR ''u'', CHR ''0'', CHR ''0'',
              hex_digit ((of_char c :: nat) div 16), hex_digit ((of_char c :: nat) mod 16)]"
      using ctl by (simp add: quote_char_def)
    then show ?thesis
      using assms unicode_escape_control [OF ctl(8)]
      by (simp add: dquote_def backslash_def)
  next
    case plain
    then have "quote_char c = [c]"
      by (auto simp add: quote_char_def)
    then show ?thesis
      using assms plain by simp
  qed
qed

lemma lex_string_quoted:
  "lex_string (concat (map quote_char s) @ dquote # rest) = Some (s, rest)"
proof (induction s)
  case Nil
  then show ?case by simp
next
  case (Cons c s)
  then show ?case
    using lex_string_quote_char [of "concat (map quote_char s) @ dquote # rest" s rest c]
    by simp
qed

lemma tokenize_whitespace: "is_whitespace c \<Longrightarrow> tokenize (c # cs) = tokenize cs"
  by simp

lemma tokenize_quoted:
  "tokenize (JSON_quote s @ rest) = map_option ((#) (TString s)) (tokenize rest)"
  using lex_string_quoted [of s rest]
  by (simp add: JSON_quote_def is_whitespace_def dquote_def)

lemma tokenize_null:
  "tokenize (''null'' @ rest) = map_option ((#) TNull) (tokenize rest)"
  by (simp add: is_whitespace_def dquote_def is_digit_def)

lemma tokenize_number:
  assumes "ends_value rest"
  shows "tokenize (int_text n @ rest) = map_option ((#) (TNumber n)) (tokenize rest)"
proof -
  obtain c cs where shape: "int_text n @ rest = c # cs" and first: "c = CHR ''-'' \<or> is_digit c"
  proof (cases "n < 0")
    case True
    then show ?thesis using that by (simp add: int_text_def)
  next
    case False
    obtain d ds where "number_text (nat n) = d # ds"
      using number_text_props [of "nat n"] by (cases "number_text (nat n)") auto
    moreover have "is_digit d"
      using number_text_props [of "nat n"] calculation by simp
    ultimately show ?thesis using that False by (simp add: int_text_def)
  qed
  have other: "\<not> is_whitespace c" "c \<noteq> CHR ''{''" "c \<noteq> CHR ''}''" "c \<noteq> CHR ''[''"
    "c \<noteq> CHR '']''" "c \<noteq> CHR '':''" "c \<noteq> CHR '',''" "c \<noteq> dquote"
    using first by (auto simp add: is_whitespace_def is_digit_def dquote_def)
  have "lex_number (c # cs) = Some (n, rest)"
    using lex_number_int [OF assms, of n] shape by simp
  then have "tokenize (c # cs) = map_option ((#) (TNumber n)) (tokenize rest)"
    using first other by simp
  then show ?thesis using shape by simp
qed

lemma tokenize_value:
  assumes "ends_value rest"
  shows "tokenize (value_text v @ rest) = map_option ((#) (value_token v)) (tokenize rest)"
proof (cases v)
  case NullValue
  then show ?thesis
    using tokenize_null [of rest] by (simp add: value_text_def value_token_def)
next
  case (StringValue s)
  then show ?thesis
    using tokenize_quoted [of s rest] by (simp add: value_text_def value_token_def)
next
  case (NumberValue n)
  then show ?thesis
    using tokenize_number [OF assms, of n] by (simp add: value_text_def value_token_def)
qed

lemma tokenize_member:
  assumes "ends_value rest"
  shows "tokenize (member_text m @ rest)
           = map_option (\<lambda>ts. TString (fst m) # TColon # value_token (snd m) # ts) (tokenize rest)"
proof -
  have "tokenize (member_text m @ rest)
          = tokenize (JSON_quote (fst m) @ '': '' @ value_text (snd m) @ rest)"
    by (simp add: member_text_def is_whitespace_def)
  also have "\<dots> = map_option ((#) (TString (fst m))) (tokenize ('': '' @ value_text (snd m) @ rest))"
    by (rule tokenize_quoted)
  also have "tokenize ('': '' @ value_text (snd m) @ rest)
               = map_option ((#) TColon) (tokenize (value_text (snd m) @ rest))"
    by (simp add: is_whitespace_def dquote_def)
  also have "tokenize (value_text (snd m) @ rest)
               = map_option ((#) (value_token (snd m))) (tokenize rest)"
    by (rule tokenize_value [OF assms])
  finally show ?thesis
    by (simp add: option.map_comp comp_def)
qed

lemma tokenize_members:
  assumes "ms \<noteq> []"
  shows "tokenize (join ('','' @ [newline]) (map member_text ms) @ [newline] @ ''}'')
           = Some (member_tokens ms @ [TRBrace])"
  using assms
proof (induction ms rule: member_tokens.induct)
  case 1
  then show ?case by simp
next
  case (2 m)
  have "tokenize ([newline] @ ''}'') = Some [TRBrace]"
    by (simp add: is_whitespace_def newline_def dquote_def)
  then show ?case
    using tokenize_member [of "[newline] @ ''}''" m]
    by (simp add: ends_value_def)
next
  case (3 m m' ms)
  let ?tail = "join ('','' @ [newline]) (map member_text (m' # ms)) @ [newline] @ ''}''"
  have tail: "tokenize ?tail = Some (member_tokens (m' # ms) @ [TRBrace])"
    using 3 by simp
  have "tokenize ('','' @ [newline] @ ?tail) = Some (TComma # member_tokens (m' # ms) @ [TRBrace])"
    using tail by (simp add: is_whitespace_def newline_def dquote_def)
  then have "tokenize (member_text m @ '','' @ [newline] @ ?tail)
               = Some (TString (fst m) # TColon # value_token (snd m) # TComma
                       # member_tokens (m' # ms) @ [TRBrace])"
    using tokenize_member [of "'','' @ [newline] @ ?tail" m]
    by (simp add: ends_value_def)
  then show ?case by simp
qed

lemma tokenize_stringify_members:
  "tokenize (stringify_members ms) = Some (TLBrace # member_tokens ms @ [TRBrace])"
proof (cases "ms = []")
  case True
  then show ?thesis
    by (simp add: stringify_members_def is_whitespace_def dquote_def)
next
  case False
  then show ?thesis
    using tokenize_members [OF False]
    by (simp add: stringify_members_def is_whitespace_def dquote_def newline_def)
qed


lemma parse_value_token:
  "parse_value (value_token v # ts) = Some (value_json v, ts)"
  by (cases v) (simp_all add: value_token_def value_json_def)

lemma parse_members_tokens:
  assumes "ms \<noteq> []"
  shows "parse_members (member_tokens ms @ TRBrace # rest) = Some (members_json ms, rest)"
  using assms
proof (induction ms rule: member_tokens.induct)
  case 1
  then show ?case by simp
next
  case (2 m)
  then show ?case
    by (simp add: parse_value_token members_json_def del: parse_value.simps)
next
  case (3 m m' ms)
  then have "parse_members (member_tokens (m' # ms) @ TRBrace # rest)
               = Some (members_json (m' # ms), rest)"
    by simp
  then show ?case
    by (simp add: parse_value_token members_json_def del: parse_value.simps)
qed

lemma parse_value_object:
  "parse_value (TLBrace # member_tokens ms @ TRBrace # rest) = Some (JObj (members_json ms), rest)"
proof (cases ms)
  case Nil
  then show ?thesis by (simp add: members_json_def)
next
  case (Cons m ms')
  then have ne: "ms \<noteq> []" by simp
  obtain t ts where "member_tokens ms @ TRBrace # rest = t # ts" and "t \<noteq> TRBrace"
    using Cons by (cases ms') auto
  then show ?thesis
    using parse_members_tokens [OF ne, of rest]
    by (cases t) simp_all
qed

lemma JSON_parse_stringify_members:
  "JSON_parse (stringify_members ms) = Some (JObj (members_json ms))"
  using tokenize_stringify_members [of ms] parse_value_object [of ms "[]"]
  by (simp add: JSON_parse_def)

lemma option_case_same: "(case x of None \<Rightarrow> None | Some v \<Rightarrow> Some v) = x"
  by (cases x) simp_all

lemma map_of_rev_append:
  "map_of (rev (xs @ ys)) k = (case map_of (rev ys) k of None \<Rightarrow> map_of (rev xs) k | Some v \<Rightarrow> Some v)"
  by (simp add: map_add_def)

lemma members_json_append: "members_json (xs @ ys) = members_json xs @ members_json ys"
  by (simp add: members_json_def)

lemma lookup_string_member:
  "map_of (rev (members_json (string_member key f))) k
     = (if k = key
        then (case f of Undefined \<Rightarrow> None | Null \<Rightarrow> Some JNull | Val s \<Rightarrow> Some (JStr s))
        else None)"
  by (cases f) (simp_all add: string_member_def members_json_def value_json_def)

lemma lookup_number_member:
  "map_of (rev (members_json (number_member key f))) k
     = (if k = key
        then (case written_expiry f of
                Val (Finite n) \<Rightarrow> Some (JNum (of_int n))
              | Val x \<Rightarrow> Some JNull
              | Null \<Rightarrow> Some JNull
              | Undefined \<Rightarrow> None)
        else None)"
  by (cases f)
     (simp_all add: number_member_def members_json_def value_json_def written_expiry_def
        split: js_number.splits)

lemma string_field_read:
  assumes "map_of (rev ms) key
             = (case f of Undefined \<Rightarrow> None | Null \<Rightarrow> Some JNull | Val s \<Rightarrow> Some (JStr s))"
  shows "string_field ms key = f"
  using assms by (cases f) (simp_all add: string_field_def)

lemma number_field_read:
  assumes "map_of (rev ms) key
             = (case written_expiry f of
                  Val (Finite n) \<Rightarrow> Some (JNum (of_int n))
                | Val x \<Rightarrow> Some JNull
                | Null \<Rightarrow> Some JNull
                | Undefined \<Rightarrow> None)"
  shows "number_field ms key = written_expiry f"
  using assms
  by (cases f) (auto simp add: number_field_def written_expiry_def split: js_number.splits)

lemma credentials_of_members_written:
  "credentials_of_members (members_json (credentials_members c))
     = c\<lparr>expiry_date := written_expiry (expiry_date c)\<rparr>"
proof -
  let ?ms = "members_json (credentials_members c)"
  have lookup: "map_of (rev ?ms) k =
      (if k = ''id_token''
         then (case id_token c of Undefined \<Rightarrow> None | Null \<Rightarrow> Some JNull | Val s \<Rightarrow> Some (JStr s))
       else if k = ''token_type''
         then (case token_type c of Undefined \<Rightarrow> None | Null \<Rightarrow> Some JNull | Val s \<Rightarrow> Some (JStr s))
       else if k = ''scope''
         then (case scope c of Undefined \<Rightarrow> None | Null \<Rightarrow> Some JNull | Val s \<Rightarrow> Some (JStr s))
       else if k = ''expiry_date''
         then (case written_expiry (expiry_date c) of
                 Val (Finite n) \<Rightarrow> Some (JNum (of_int n))
               | Val x \<Rightarrow> Some JNull
               | Null \<Rightarrow> Some JNull
               | Undefined \<Rightarrow> None)
       else if k = ''refresh_token''
         then (case refresh_token c of Undefined \<Rightarrow> None | Null \<Rightarrow> Some JNull | Val s \<Rightarrow> Some (JStr s))
       else if k = ''access_token''
         then (case access_token c of Undefined \<Rightarrow> None | Null \<Rightarrow> Some JNull | Val s \<Rightarrow> Some (JStr s))
       else None)" for k
    unfolding credentials_members_def members_json_append map_of_rev_append
      lookup_string_member lookup_number_member
    by (simp add: option_case_same)
  have "string_field ?ms ''access_token'' = access_token c"
    by (rule string_field_read) (simp add: lookup)
  moreover have "string_field ?ms ''refresh_token'' = refresh_token c"
    by (rule string_field_read) (simp add: lookup)
  moreover have "number_field ?ms ''expiry_date'' = written_expiry (expiry_date c)"
    by (rule number_field_read) (simp add: lookup)
  moreover have "string_field ?ms ''scope'' = scope c"
    by (rule string_field_read) (simp add: lookup)
  moreover have "string_field ?ms ''token_type'' = token_type c"
    by (rule string_field_read) (simp add: lookup)
  moreover have "string_field ?ms ''id_token'' = id_token c"
    by (rule string_field_read) (simp add: lookup)
  ultimately show ?thesis
    by (simp add: credentials_of_members_def)
qed

lemma parse_credentials_stringify_credentials:
  "parse_credentials (stringify_credentials c)
     = Some (Some (c\<lparr>expiry_date := written_expiry (expiry_date c)\<rparr>))"
  using JSON_parse_stringify_members [of "credentials_members c"]
    credentials_of_members_written [of c]
  by (simp add: parse_credentials_def stringify_credentials_def as_credentials_def)

section \<open>Properties of the auth service\<close>

lemma refresh_calls_append:
  "refresh_calls (xs @ ys) = refresh_calls xs + refresh_calls ys"
  by (induction xs rule: refresh_calls.induct) simp_all

lemma ensureDirectory_cases:
  assumes "ensureDirectory p path w = Some w1"
  shows "w_auth w1 = w_auth w \<and> w_credentials w1 = w_credentials w
         \<and> refresh_calls (w_trace w1) = refresh_calls (w_trace w)"
  using assms
  by (auto simp add: ensureDirectory_def Let_def refresh_calls_append
      split: if_splits option.splits)

lemma saveCredentials_keeps:
  "w_auth (snd (saveCredentials p c w)) = w_auth w
   \<and> w_credentials (snd (saveCredentials p c w)) = w_credentials w
   \<and> refresh_calls (w_trace (snd (saveCredentials p c w))) = refresh_calls (w_trace w)"
  by (auto simp add: saveCredentials_def refresh_calls_append
      dest: ensureDirectory_cases split: option.splits)

lemma saveCredentials_written:
  assumes "saveCredentials p c w = (Inr u, w')"
  shows "fs_files (w_fs w') (credentialsPath p) = Some (JSON_stringify p c)
         \<and> readFile (w_fs w') (credentialsPath p) = Some (JSON_stringify p c)
         \<and> w_trace w' \<noteq> []
         \<and> last (w_trace w') = WriteFile (credentialsPath p) (JSON_stringify p c)"
  using assms
  by (auto simp add: saveCredentials_def writeFile_def readFile_def
      split: option.splits if_splits)

lemma loadSavedCredentials_ok:
  assumes "readFile (w_fs w) (credentialsPath p) = Some content"
    and "JSON_parse_credentials p content = Some creds"
    and "readFile (w_fs w) (oauthPath p) = Some keys_text"
    and "JSON_parse_oauth_keys p keys_text = Some cfg"
    and "installed cfg = Some inst"
    and "ic_redirect_uris inst = Some uris"
  shows "loadSavedCredentials p w
           = (Inr (Some (new_client inst uris creds)),
              w\<lparr>w_auth := Some (new_client inst uris creds), w_credentials := creds\<rparr>)"
  using assms
  by (auto simp add: loadSavedCredentials_def existsSync_def readFile_def new_client_def Let_def
      split: if_splits)

text \<open>
  C2. When the service holds a client and credentials whose expiry date is more than five
  minutes (300000 ms) after the clock's time, \<open>authenticate\<close> returns the held client and
  leaves everything as it was: the service's members, the file system and the trace, so
  the refresh endpoint is not called and no file is written.
\<close>

theorem authenticate_returns_held_client:
  assumes "w_auth w = Some auth" and "w_credentials w = Some creds"
    and "expiry_date creds = Val (Finite e)" and "e > int (now p) + 5 * 60 * 1000"
  shows "authenticate p w = (Inr auth, w)"
  using assms
  by (simp add: authenticate_def authenticate_checked_def expires_later_def truthy_js_number_def js_greater_def
      fiveMinutes_def)

theorem authenticate_returns_held_client_witness:
  "w_auth (holding_world renewed_credentials) = Some (example_client renewed_credentials)
   \<and> w_credentials (holding_world renewed_credentials) = Some renewed_credentials
   \<and> expiry_date renewed_credentials = Val (Finite 4600000)
   \<and> (4600000 :: int) > int (now example_platform) + 5 * 60 * 1000
   \<and> authenticate example_platform (holding_world renewed_credentials)
       = (Inr (example_client renewed_credentials), holding_world renewed_credentials)"
proof -
  have held: "w_auth (holding_world renewed_credentials) = Some (example_client renewed_credentials)"
    "w_credentials (holding_world renewed_credentials) = Some renewed_credentials"
    by (simp_all add: holding_world_def)
  have expiry: "expiry_date renewed_credentials = Val (Finite 4600000)"
    by (simp add: renewed_credentials_def)
  have later: "(4600000 :: int) > int (now example_platform) + 5 * 60 * 1000"
    by (simp add: example_platform_def)
  show ?thesis
    using held expiry later authenticate_returns_held_client [OF held expiry later]
    by simp
qed

text \<open>
  C3. When the held credentials expire at or within five minutes of the clock's time and
  carry a (non-empty) refresh token, one call of \<open>authenticate\<close> calls the refresh endpoint
  exactly once. Whenever the call returns a client, that client and the credentials of the
  refresh response are the service's members, the credential file holds the text of the
  response's credentials, and writing it was the last thing done. It does return the
  client whenever the refresh call answers and the save succeeds.
\<close>

theorem authenticate_refreshes_once:
  assumes held: "w_auth w = Some auth" "w_credentials w = Some creds"
    and exp: "expiry_date creds = Val (Finite e)" "e \<le> int (now p) + 5 * 60 * 1000"
    and tok: "refresh_token creds = Val t" "t \<noteq> []"
  shows "refresh_calls (w_trace (snd (authenticate p w))) = refresh_calls (w_trace w) + 1
    \<and> (\<forall>client. fst (authenticate p w) = Inr client \<longrightarrow>
          (\<exists>response. refreshAccessToken p auth = Some (client, response)
             \<and> w_auth (snd (authenticate p w)) = Some client
             \<and> w_credentials (snd (authenticate p w)) = Some response
             \<and> fs_files (w_fs (snd (authenticate p w))) (credentialsPath p)
                 = Some (JSON_stringify p response)
             \<and> last (w_trace (snd (authenticate p w)))
                 = WriteFile (credentialsPath p) (JSON_stringify p response)))
    \<and> (\<forall>client response w'.
          refreshAccessToken p auth = Some (client, response)
          \<and> saveCredentials p response
                (w\<lparr>w_trace := w_trace w @ [RefreshCall auth], w_auth := Some client,
                   w_credentials := Some response\<rparr>) = (Inr (), w')
          \<longrightarrow> authenticate p w = (Inr client, w'))"
proof -
  let ?w1 = "w\<lparr>w_trace := w_trace w @ [RefreshCall auth]\<rparr>"
  have stale: "\<not> expires_later p creds"
    using exp by (simp add: expires_later_def js_greater_def fiveMinutes_def)
  have truthy: "truthy_str (refresh_token creds)"
    using tok by (simp add: truthy_str_def)
  show ?thesis
  proof (cases "refreshAccessToken p auth")
    case None
    then have "authenticate p w = (Inl REFRESH_FAILED, ?w1)"
      using held stale truthy by (simp add: authenticate_def authenticate_checked_def)
    then show ?thesis
      using None by (simp add: refresh_calls_append)
  next
    case (Some pr)
    obtain client response where pr: "pr = (client, response)"
      by (cases pr)
    let ?w2 = "?w1\<lparr>w_auth := Some client, w_credentials := Some response\<rparr>"
    obtain r w3 where sv: "saveCredentials p response ?w2 = (r, w3)"
      by (cases "saveCredentials p response ?w2")
    have w3: "w_auth w3 = Some client \<and> w_credentials w3 = Some response
              \<and> refresh_calls (w_trace w3) = refresh_calls (w_trace w) + 1"
      using saveCredentials_keeps [of p response ?w2] sv
      by (simp add: refresh_calls_append)
    show ?thesis
    proof (cases r)
      case (Inl err)
      then have "authenticate p w = (Inl REFRESH_FAILED, w3)"
        using held stale truthy Some pr sv
        by (simp add: authenticate_def authenticate_checked_def)
      then show ?thesis
        using w3 Some pr sv Inl by auto
    next
      case (Inr u)
      then have res: "authenticate p w = (Inr client, w3)"
        using held stale truthy Some pr sv
        by (simp add: authenticate_def authenticate_checked_def)
      have "saveCredentials p response ?w2 = (Inr u, w3)"
        using sv Inr by simp
      from saveCredentials_written [OF this] res w3 Some pr sv show ?thesis
        by auto
    qed
  qed
qed


theorem authenticate_refreshes_once_witness:
  "expiry_date stale_credentials = Val (Finite 1000000)
   \<and> (1000000 :: int) \<le> int (now example_platform) + 5 * 60 * 1000
   \<and> refresh_token stale_credentials = Val ''1//refresh''
   \<and> refresh_calls (w_trace (snd (authenticate example_platform (holding_world stale_credentials))))
       = 1
   \<and> fst (authenticate example_platform (holding_world stale_credentials))
       = Inr (example_client renewed_credentials)
   \<and> w_credentials (snd (authenticate example_platform (holding_world stale_credentials)))
       = Some renewed_credentials
   \<and> fs_files (w_fs (snd (authenticate example_platform (holding_world stale_credentials))))
        ''/home/u/.google/server-creds.json'' = Some renewed_text
   \<and> w_trace (snd (authenticate example_platform (holding_world stale_credentials)))
       = [RefreshCall (example_client stale_credentials),
          WriteFile ''/home/u/.google/server-creds.json'' renewed_text]"
proof -
  have held: "w_auth (holding_world stale_credentials) = Some (example_client stale_credentials)"
    "w_credentials (holding_world stale_credentials) = Some stale_credentials"
    by (simp_all add: holding_world_def)
  have expiry: "expiry_date stale_credentials = Val (Finite 1000000)"
    "(1000000 :: int) \<le> int (now example_platform) + 5 * 60 * 1000"
    by (simp_all add: stale_credentials_def example_platform_def)
  have token: "refresh_token stale_credentials = Val ''1//refresh''" "''1//refresh'' \<noteq> []"
    by (simp_all add: stale_credentials_def)
  have run: "fst (authenticate example_platform (holding_world stale_credentials))
       = Inr (example_client renewed_credentials)
   \<and> w_credentials (snd (authenticate example_platform (holding_world stale_credentials)))
       = Some renewed_credentials
   \<and> fs_files (w_fs (snd (authenticate example_platform (holding_world stale_credentials))))
        ''/home/u/.google/server-creds.json'' = Some renewed_text
   \<and> w_trace (snd (authenticate example_platform (holding_world stale_credentials)))
       = [RefreshCall (example_client stale_credentials),
          WriteFile ''/home/u/.google/server-creds.json'' renewed_text]"
    by (simp add: authenticate_def authenticate_checked_def expires_later_def truthy_js_number_def js_greater_def
        truthy_str_def fiveMinutes_def saveCredentials_def ensureDirectory_def existsSync_def
        writeFile_def holding_world_def example_platform_def example_fs_def example_client_def
        stale_credentials_def renewed_credentials_def)
  have "refresh_calls (w_trace (holding_world stale_credentials)) = 0"
    by (simp add: holding_world_def)
  then show ?thesis
    using expiry token run authenticate_refreshes_once [OF held expiry token]
    by simp
qed

text \<open>
  C7. When the held credentials expire at or within five minutes of the clock's time and
  have no refresh token (the member is absent, \<open>null\<close> or the empty string),
  \<open>authenticate\<close> fails with the error whose code is \<open>NO_REFRESH_TOKEN\<close> and leaves
  everything as it was: no refresh call is in the trace, the held credentials and the
  file system are unchanged.
\<close>

theorem authenticate_no_refresh_token:
  assumes "w_auth w = Some auth" and "w_credentials w = Some creds"
    and "expiry_date creds = Val (Finite e)" and "e \<le> int (now p) + 5 * 60 * 1000"
    and "\<not> truthy_str (refresh_token creds)"
  shows "authenticate p w = (Inl NO_REFRESH_TOKEN, w)
         \<and> NO_REFRESH_TOKEN = AuthenticationError
              ''No refresh token available. Please run `node dist/index.js auth` to re-authenticate.''
              ''NO_REFRESH_TOKEN''"
  using assms
  by (simp add: authenticate_def authenticate_checked_def expires_later_def truthy_js_number_def js_greater_def
      fiveMinutes_def NO_REFRESH_TOKEN_def)

theorem authenticate_no_refresh_token_witness:
  "expiry_date (stale_credentials\<lparr>refresh_token := Undefined\<rparr>) = Val (Finite 1000000)
   \<and> (1000000 :: int) \<le> int (now example_platform) + 5 * 60 * 1000
   \<and> \<not> truthy_str (refresh_token (stale_credentials\<lparr>refresh_token := Undefined\<rparr>))
   \<and> authenticate example_platform
         (holding_world (stale_credentials\<lparr>refresh_token := Undefined\<rparr>))
       = (Inl NO_REFRESH_TOKEN, holding_world (stale_credentials\<lparr>refresh_token := Undefined\<rparr>))"
proof -
  let ?c = "stale_credentials\<lparr>refresh_token := Undefined\<rparr>"
  have held: "w_auth (holding_world ?c) = Some (example_client ?c)"
    "w_credentials (holding_world ?c) = Some ?c"
    by (simp_all add: holding_world_def)
  have expiry: "expiry_date ?c = Val (Finite 1000000)"
    "(1000000 :: int) \<le> int (now example_platform) + 5 * 60 * 1000"
    by (simp_all add: stale_credentials_def example_platform_def)
  have token: "\<not> truthy_str (refresh_token ?c)"
    by (simp add: truthy_str_def)
  show ?thesis
    using expiry token authenticate_no_refresh_token [OF held expiry token]
    by simp
qed

text \<open>
  C8, as the code has it. \<open>loadSavedCredentials\<close> returns \<open>null\<close> and changes nothing when
  nothing exists at the credential path; it fails with the error whose code is
  \<open>NO_OAUTH_KEYS\<close> when the credential file exists and nothing exists at the client-config
  path; and when both files can be read and parse, and the client config has an
  \<open>installed\<close> member with a \<open>redirect_uris\<close> member, it returns a client built from that
  member and carrying the parsed credentials, which it also stores in the service.
\<close>

theorem loadSavedCredentials_cases:
  "(\<not> existsSync (w_fs w1) (credentialsPath p) \<longrightarrow> loadSavedCredentials p w1 = (Inr None, w1))
   \<and> (existsSync (w_fs w2) (credentialsPath p) \<and> \<not> existsSync (w_fs w2) (oauthPath p)
        \<longrightarrow> loadSavedCredentials p w2 = (Inl (NO_OAUTH_KEYS p), w2))
   \<and> (readFile (w_fs w3) (credentialsPath p) = Some content
        \<and> JSON_parse_credentials p content = Some creds
        \<and> readFile (w_fs w3) (oauthPath p) = Some keys_text
        \<and> JSON_parse_oauth_keys p keys_text = Some cfg
        \<and> installed cfg = Some inst
        \<and> ic_redirect_uris inst = Some uris
        \<longrightarrow> loadSavedCredentials p w3
              = (Inr (Some (new_client inst uris creds)),
                 w3\<lparr>w_auth := Some (new_client inst uris creds), w_credentials := creds\<rparr>)
            \<and> oc_credentials (new_client inst uris creds) = creds)"
  using loadSavedCredentials_ok [of w3 p content creds keys_text cfg inst uris]
  by (simp add: loadSavedCredentials_def new_client_def)

theorem loadSavedCredentials_cases_witness:
  "\<not> existsSync (example_fs None (Some installed_keys_text)) (credentialsPath example_platform)
   \<and> loadSavedCredentials example_platform (fresh_world (example_fs None (Some installed_keys_text)))
       = (Inr None, fresh_world (example_fs None (Some installed_keys_text)))
   \<and> existsSync (example_fs (Some stale_text) None) (credentialsPath example_platform)
   \<and> \<not> existsSync (example_fs (Some stale_text) None) (oauthPath example_platform)
   \<and> loadSavedCredentials example_platform (fresh_world (example_fs (Some stale_text) None))
       = (Inl (NO_OAUTH_KEYS example_platform), fresh_world (example_fs (Some stale_text) None))
   \<and> readFile (example_fs (Some stale_text) (Some installed_keys_text))
        (credentialsPath example_platform) = Some stale_text
   \<and> JSON_parse_credentials example_platform stale_text = Some (Some stale_credentials)
   \<and> readFile (example_fs (Some stale_text) (Some installed_keys_text))
        (oauthPath example_platform) = Some installed_keys_text
   \<and> JSON_parse_oauth_keys example_platform installed_keys_text = Some example_keys
   \<and> loadSavedCredentials example_platform
        (fresh_world (example_fs (Some stale_text) (Some installed_keys_text)))
       = (Inr (Some (example_client stale_credentials)), holding_world stale_credentials)"
  using loadSavedCredentials_cases [of "fresh_world (example_fs None (Some installed_keys_text))"
      example_platform
      "fresh_world (example_fs (Some stale_text) None)"
      "fresh_world (example_fs (Some stale_text) (Some installed_keys_text))"
      stale_text "Some stale_credentials" installed_keys_text example_keys
      "the (installed example_keys)" "[''http://localhost'']"]
  by (simp add: example_platform_def fresh_world_def example_fs_def existsSync_def readFile_def
      example_keys_def new_client_def example_client_def holding_world_def
      installed_keys_text_def stale_text_def)

text \<open>
  The third part of C8 as it is claimed (a client is returned whenever both files exist
  and parse) fails for a client-config file of the web-app shape: both files exist and
  parse, the configuration has no \<open>installed\<close> member, reading \<open>client_id\<close> of it throws,
  and the call fails with \<open>LOAD_FAILED\<close>.
\<close>

theorem loadSavedCredentials_web_keys_counterexample:
  "existsSync (example_fs (Some stale_text) (Some web_keys_text)) (credentialsPath example_platform)
   \<and> existsSync (example_fs (Some stale_text) (Some web_keys_text)) (oauthPath example_platform)
   \<and> JSON_parse_credentials example_platform stale_text = Some (Some stale_credentials)
   \<and> JSON_parse_oauth_keys example_platform web_keys_text = Some \<lparr>installed = None\<rparr>
   \<and> loadSavedCredentials example_platform
        (fresh_world (example_fs (Some stale_text) (Some web_keys_text)))
     = (Inl LOAD_FAILED, fresh_world (example_fs (Some stale_text) (Some web_keys_text)))"
  by (simp add: loadSavedCredentials_def example_platform_def fresh_world_def example_fs_def
      existsSync_def readFile_def installed_keys_text_def web_keys_text_def stale_text_def)

text \<open>
  C10, as the code has it. Saving a credential record and then loading gives a client
  that carries the saved record, and the service holds the same record, so the access
  token, the refresh token and the expiry date are those that were saved. This holds
  when the expiry date is absent, \<open>null\<close> or a whole number of magnitude up to
  \<open>2^53 - 1\<close>, under the conditions the round trip needs: the platform's
  \<open>JSON.stringify\<close> and \<open>JSON.parse\<close>, the save succeeded, and after the save the
  client-config file can be read and has the installed-app shape.
\<close>

theorem saveCredentials_loadSavedCredentials_roundtrip:
  assumes json: "JSON_stringify p = stringify_credentials"
      "JSON_parse_credentials p = parse_credentials"
    and expiry: "case expiry_date creds of
                   Val x \<Rightarrow> (case x of Finite n \<Rightarrow> \<bar>n\<bar> \<le> 2 ^ 53 - 1 | _ \<Rightarrow> False)
                 | _ \<Rightarrow> True"
    and save: "saveCredentials p creds w = (Inr (), w')"
    and keys: "readFile (w_fs w') (oauthPath p) = Some keys_text"
      "JSON_parse_oauth_keys p keys_text = Some cfg"
      "installed cfg = Some inst" "ic_redirect_uris inst = Some uris"
  shows "\<exists>client loaded w''.
           loadSavedCredentials p w' = (Inr (Some client), w'')
           \<and> oc_credentials client = Some loaded
           \<and> w_credentials w'' = Some loaded
           \<and> loaded = creds
           \<and> access_token loaded = access_token creds
           \<and> refresh_token loaded = refresh_token creds
           \<and> expiry_date loaded = expiry_date creds"
proof -
  have rd: "readFile (w_fs w') (credentialsPath p) = Some (stringify_credentials creds)"
    using saveCredentials_written [OF save] json by simp
  have "written_expiry (expiry_date creds) = expiry_date creds"
    using expiry by (simp add: written_expiry_def split: field.splits js_number.splits)
  then have "JSON_parse_credentials p (stringify_credentials creds) = Some (Some creds)"
    using json by (simp add: parse_credentials_stringify_credentials)
  from loadSavedCredentials_ok [OF rd this keys] show ?thesis
    by (simp add: new_client_def)
qed

theorem saveCredentials_loadSavedCredentials_roundtrip_witness:
  "JSON_stringify json_platform = stringify_credentials
   \<and> JSON_parse_credentials json_platform = parse_credentials
   \<and> expiry_date renewed_credentials = Val (Finite 4600000)
   \<and> fst (saveCredentials json_platform renewed_credentials (holding_world stale_credentials))
       = Inr ()
   \<and> (\<exists>client w''.
        loadSavedCredentials json_platform
          (snd (saveCredentials json_platform renewed_credentials (holding_world stale_credentials)))
          = (Inr (Some client), w'')
        \<and> oc_credentials client = Some renewed_credentials
        \<and> w_credentials w'' = Some renewed_credentials)"
proof -
  let ?w' = "snd (saveCredentials json_platform renewed_credentials (holding_world stale_credentials))"
  have json: "JSON_stringify json_platform = stringify_credentials"
    "JSON_parse_credentials json_platform = parse_credentials"
    by (simp_all add: json_platform_def)
  have whole: "expiry_date renewed_credentials = Val (Finite 4600000)"
    by (simp add: renewed_credentials_def)
  then have expiry: "case expiry_date renewed_credentials of
                 Val x \<Rightarrow> (case x of Finite n \<Rightarrow> \<bar>n\<bar> \<le> 2 ^ 53 - 1 | _ \<Rightarrow> False)
               | _ \<Rightarrow> True"
    by simp
  have sv: "fst (saveCredentials json_platform renewed_credentials (holding_world stale_credentials))
      = Inr ()"
    by (simp add: saveCredentials_def ensureDirectory_def existsSync_def writeFile_def
        json_platform_def example_platform_def holding_world_def example_fs_def)
  then have save: "saveCredentials json_platform renewed_credentials (holding_world stale_credentials)
      = (Inr (), ?w')"
    by (metis prod.collapse)
  have keys: "readFile (w_fs ?w') (oauthPath json_platform) = Some installed_keys_text"
    by (simp add: saveCredentials_def ensureDirectory_def existsSync_def writeFile_def readFile_def
        json_platform_def example_platform_def holding_world_def example_fs_def)
  have k2: "JSON_parse_oauth_keys json_platform installed_keys_text = Some example_keys"
    by (simp add: json_platform_def example_platform_def)
  have k3: "installed example_keys
      = Some \<lparr>ic_client_id = Some ''id'', ic_client_secret = Some ''secret'',
              ic_redirect_uris = Some [''http://localhost'']\<rparr>"
    by (simp add: example_keys_def)
  show ?thesis
    using json whole sv saveCredentials_loadSavedCredentials_roundtrip [OF json expiry save keys k2 k3]
    by auto
qed

text \<open>
  C10 as it is claimed (for every credential record) fails for a record whose expiry date
  is \<open>Infinity\<close>: the save succeeds and writes the expiry date as \<open>null\<close>, and the client
  that loading returns carries \<open>null\<close> as its expiry date, where the access token and the
  refresh token are those that were saved.
\<close>

theorem saveCredentials_loadSavedCredentials_infinity_counterexample:
  "expiry_date unending_credentials = Val PosInfinity
   \<and> fst (saveCredentials json_platform unending_credentials (holding_world stale_credentials))
       = Inr ()
   \<and> fst (loadSavedCredentials json_platform
        (snd (saveCredentials json_platform unending_credentials (holding_world stale_credentials))))
       = Inr (Some (example_client (unending_credentials\<lparr>expiry_date := Null\<rparr>)))
   \<and> expiry_date (unending_credentials\<lparr>expiry_date := Null\<rparr>) \<noteq> expiry_date unending_credentials
   \<and> access_token (unending_credentials\<lparr>expiry_date := Null\<rparr>) = access_token unending_credentials
   \<and> refresh_token (unending_credentials\<lparr>expiry_date := Null\<rparr>) = refresh_token unending_credentials"
  by (simp add: saveCredentials_def ensureDirectory_def existsSync_def writeFile_def
      readFile_def loadSavedCredentials_def Let_def json_platform_def example_platform_def
      holding_world_def example_fs_def example_client_def example_keys_def
      parse_credentials_stringify_credentials written_expiry_def unending_credentials_def)

section \<open>Properties of the tool dispatcher\<close>


lemma length_tool_catalog: "length tool_catalog = 16 \<and> distinct tool_catalog"
  by (simp add: tool_catalog_def)

lemma callTool_try_unknown:
  assumes "name \<notin> set tool_catalog"
  shows "callTool_try rt svc name args = (Inl (Error ''Tool not found''), [])"
  using assms by (simp add: tool_catalog_def callTool_try_def)

lemma zparse_shape_requests:
  assumes "\<not> has_requests_array (Some (JObj members))"
  shows "zparse_shape UpdateDocContentInputSchema members = None"
  using assms
  by (auto simp add: UpdateDocContentInputSchema_def has_requests_array_def
      split: option.splits json.splits)

lemma schema_parse_requests:
  assumes "\<not> has_requests_array args"
  shows "schema_parse UpdateDocContentInputSchema args = None"
proof (cases args)
  case None
  then show ?thesis by (simp add: schema_parse_def)
next
  case (Some v)
  show ?thesis
  proof (cases v)
    case (JObj members)
    then show ?thesis
      using assms Some zparse_shape_requests [of members] by (simp add: schema_parse_def)
  qed (simp_all add: Some schema_parse_def)
qed


lemma tool_case_invalid:
  assumes "schema_parse schema args = None"
  shows "tool_case rt schema method adapter text args
           = (Inl (Error (zod_message rt schema args)), [])"
  using assms by (simp add: tool_case_def)

lemma tool_case_adapter_throws:
  assumes "schema_parse schema args = Some input" and "thrown_by (adapter input) = Some e"
  shows "tool_case rt schema method adapter text args = (Inl e, [ServiceCall method input])"
  using assms by (simp add: tool_case_def thrown_by_def split: sum.splits)

lemma callTool_try_adapter_error:
  assumes "name \<in> set tool_catalog"
    and "schema_parse (tool_schema name) args = Some input"
    and "adapter_error svc name input = Some e"
  shows "\<exists>method. callTool_try rt svc name args = (Inl e, [ServiceCall method input])"
proof -
  have "\<And>schema method adapter text.
          schema_parse schema args = Some input \<Longrightarrow> thrown_by (adapter input) = Some e \<Longrightarrow>
          \<exists>m. tool_case rt schema method adapter text args = (Inl e, [ServiceCall m input])"
    by (simp add: tool_case_adapter_throws)
  then show ?thesis
    using assms
    unfolding tool_catalog_def
    by (simp only: set_simps insert_iff empty_iff, elim disjE; simp add: callTool_try_def tool_schema_def adapter_error_def)
qed

lemma callTool_try_invalid:
  assumes "name \<in> set tool_catalog"
    and "schema_parse (tool_schema name) args = None"
  shows "callTool_try rt svc name args = (Inl (Error (zod_message rt (tool_schema name) args)), [])"
  using assms
  unfolding tool_catalog_def
  by (simp only: set_simps insert_iff empty_iff, elim disjE; simp add: callTool_try_def tool_schema_def tool_case_invalid)


lemma callTool_of_thrown:
  assumes "callTool_try rt svc name args = (Inl e, calls)" and "errorMessage rt e = Inr message"
  shows "callTool rt svc name args = (Inr (text_response message True), calls)"
  using assms by (simp add: callTool_def)

lemma callTool_of_escaped:
  assumes "callTool_try rt svc name args = (Inl e, calls)" and "errorMessage rt e = Inl t"
  shows "callTool rt svc name args = (Inl t, calls)"
  using assms by (simp add: callTool_def)

text \<open>
  What the handler does get right. A tool name outside the catalog gives the error
  response \<open>An error occurred: Tool not found\<close> and no adapter call. An adapter error
  during the call of a catalog tool gives the error response with the message that the
  \<open>catch\<close> block builds, whenever it can build it; the message is the error's message,
  with the JSON text of the cause after it when there is one.
\<close>

lemma callTool_error_response:
  "(unknown \<notin> set tool_catalog \<longrightarrow>
      callTool rt svc unknown args0
        = (Inr \<lparr>content_blocks = [\<lparr>cb_type = ''text'',
                                     cb_text = ''An error occurred: Tool not found''\<rparr>],
                isError = True\<rparr>, []))
   \<and> (name \<in> set tool_catalog
        \<and> schema_parse (tool_schema name) args = Some input
        \<and> adapter_error svc name input = Some e
        \<and> errorMessage rt e = Inr message
      \<longrightarrow> fst (callTool rt svc name args)
            = Inr \<lparr>content_blocks = [\<lparr>cb_type = ''text'', cb_text = message\<rparr>],
                   isError = True\<rparr>)
   \<and> errorMessage rt (Error m) = Inr (''An error occurred: '' @ m)
   \<and> errorMessage rt (AuthenticationError m code) = Inr (''An error occurred: '' @ m)
   \<and> errorMessage rt (ErrorCause m (Data cause))
       = Inr (''An error occurred: '' @ m @ [newline] @ ''Cause: ''
              @ JSON_stringify_compact rt cause)
   \<and> errorMessage rt (ErrorCause m Undefined_value)
       = Inr (''An error occurred: '' @ m @ [newline] @ ''Cause: undefined'')
   \<and> errorMessage rt (NonError (Data v)) = Inr (''An error occurred: '' @ JSON_stringify_compact rt v)
   \<and> errorMessage rt (NonError Undefined_value) = Inr ''An error occurred: undefined''"
proof -
  have a: "unknown \<notin> set tool_catalog \<Longrightarrow>
      callTool rt svc unknown args0
        = (Inr (text_response ''An error occurred: Tool not found'' True), [])"
    using callTool_of_thrown [OF callTool_try_unknown, of unknown rt "''An error occurred: Tool not found''" svc args0]
    by (simp add: errorMessage_def)
  have b: "name \<in> set tool_catalog \<Longrightarrow> schema_parse (tool_schema name) args = Some input \<Longrightarrow>
      adapter_error svc name input = Some e \<Longrightarrow> errorMessage rt e = Inr message \<Longrightarrow>
      fst (callTool rt svc name args) = Inr (text_response message True)"
    using callTool_try_adapter_error [of name args input svc e rt] callTool_of_thrown
    by fastforce
  show ?thesis
    using a b by (simp add: text_response_def errorMessage_def stringify_in_text_def)
qed

lemma callTool_error_response_example:
  \<open>callTool example_runtime failing_services ''drive_delete_file'' (Some (JObj []))
       = (Inr \<lparr>content_blocks = [\<lparr>cb_type = ''text'',
                                    cb_text = ''An error occurred: Tool not found''\<rparr>],
               isError = True\<rparr>, [])
   \<and> callTool example_runtime failing_services ''search'' (Some (JObj [(''query'', JStr ''report'')]))
       = (Inr \<lparr>content_blocks =
                 [\<lparr>cb_type = ''text'',
                   cb_text = ''An error occurred: Rate limit exceeded'' @ [newline]
                             @ ''Cause: {"code":429}''\<rparr>],
               isError = True\<rparr>,
          [ServiceCall ''searchFiles'' [(''query'', JStr ''report''), (''page_size'', JNum 10)]])\<close>
  by (simp add: callTool_def callTool_try_def tool_case_def schema_parse_def SearchInputSchema_def
      failing_services_def example_services_def example_runtime_def errorMessage_def
      stringify_in_text_def text_response_def)

text \<open>
  C1 holds for tool names outside the catalog and fails on the code for an adapter error
  that \<open>JSON.stringify\<close> cannot write. The tool \<open>search\<close> is in the catalog, its arguments
  pass validation, and the adapter throws an \<open>Error\<close> whose \<open>cause\<close> is an object that
  refers to itself. The \<open>catch\<close> block calls \<open>JSON.stringify\<close> on the cause, the call
  throws a \<open>TypeError\<close>, and that error leaves the handler: there is no response and no
  \<open>isError\<close> flag.
\<close>

theorem callTool_unserializable_cause_escapes:
  "''search'' \<in> set tool_catalog
   \<and> schema_parse (tool_schema ''search'') (Some (JObj [(''query'', JStr ''report'')]))
       = Some [(''query'', JStr ''report''), (''page_size'', JNum 10)]
   \<and> adapter_error circular_services ''search''
         [(''query'', JStr ''report''), (''page_size'', JNum 10)]
       = Some (ErrorCause ''Request failed'' Circular)
   \<and> callTool example_runtime circular_services ''search''
         (Some (JObj [(''query'', JStr ''report'')]))
       = (Inl (Error ''Converting circular structure to JSON''),
          [ServiceCall ''searchFiles'' [(''query'', JStr ''report''), (''page_size'', JNum 10)]])"
proof -
  have known: "''search'' \<in> set tool_catalog"
    by (simp add: tool_catalog_def)
  have valid: "schema_parse (tool_schema ''search'') (Some (JObj [(''query'', JStr ''report'')]))
       = Some [(''query'', JStr ''report''), (''page_size'', JNum 10)]"
    by (simp add: tool_schema_def schema_parse_def SearchInputSchema_def)
  have throws: "adapter_error circular_services ''search''
         [(''query'', JStr ''report''), (''page_size'', JNum 10)]
       = Some (ErrorCause ''Request failed'' Circular)"
    by (simp add: adapter_error_def thrown_by_def circular_services_def)
  have tried: "callTool_try example_runtime circular_services ''search''
         (Some (JObj [(''query'', JStr ''report'')]))
       = (Inl (ErrorCause ''Request failed'' Circular),
          [ServiceCall ''searchFiles'' [(''query'', JStr ''report''), (''page_size'', JNum 10)]])"
    by (simp add: callTool_try_def tool_case_def schema_parse_def SearchInputSchema_def
        circular_services_def)
  have escaped: "errorMessage example_runtime (ErrorCause ''Request failed'' Circular)
       = Inl (Error ''Converting circular structure to JSON'')"
    by (simp add: errorMessage_def stringify_in_text_def example_runtime_def)
  show ?thesis
    using known valid throws callTool_of_escaped [OF tried escaped] by simp
qed

text \<open>
  C6, as the code has it. Whenever the arguments of a \<open>docs_update_content\<close> call are not
  an object with a \<open>requests\<close> array, the runtime schema rejects them, the handler returns
  the response with \<open>isError = true\<close> and the validation message, and no adapter call is
  made, so no document update is issued. Hence arguments that the advertised schema of
  the catalog accepts are accepted by the runtime schema only when they carry a
  \<open>requests\<close> array besides.
\<close>

theorem docs_update_content_requires_requests:
  "(\<not> has_requests_array args \<longrightarrow>
      schema_parse UpdateDocContentInputSchema args = None
      \<and> callTool rt svc ''docs_update_content'' args
          = (Inr \<lparr>content_blocks =
                    [\<lparr>cb_type = ''text'',
                      cb_text = ''An error occurred: ''
                                @ zod_message rt UpdateDocContentInputSchema args\<rparr>],
                  isError = True\<rparr>, []))
   \<and> (js_valid docs_update_content_inputSchema a
        \<and> schema_parse UpdateDocContentInputSchema (Some a) \<noteq> None
      \<longrightarrow> has_requests_array (Some a))"
proof -
  have "callTool_try rt svc ''docs_update_content'' args
          = (Inl (Error (zod_message rt UpdateDocContentInputSchema args)), [])"
    if "\<not> has_requests_array args"
    using schema_parse_requests [OF that]
    by (simp add: callTool_try_def tool_case_invalid)
  then have first: "\<not> has_requests_array args \<Longrightarrow>
      callTool rt svc ''docs_update_content'' args
        = (Inr \<lparr>content_blocks =
                  [\<lparr>cb_type = ''text'',
                    cb_text = ''An error occurred: ''
                              @ zod_message rt UpdateDocContentInputSchema args\<rparr>],
                isError = True\<rparr>, [])"
    by (simp add: callTool_def errorMessage_def text_response_def)
  have second: "has_requests_array (Some a)"
    if accepted: "schema_parse UpdateDocContentInputSchema (Some a) \<noteq> None"
  proof (rule ccontr)
    assume "\<not> has_requests_array (Some a)"
    from schema_parse_requests [OF this] accepted show False
      by simp
  qed
  show ?thesis
    using first second schema_parse_requests [of args] by blast
qed

theorem docs_update_content_requires_requests_witness:
  \<open>\<not> has_requests_array (Some advertised_arguments)
   \<and> js_valid docs_update_content_inputSchema advertised_arguments
   \<and> schema_parse UpdateDocContentInputSchema (Some advertised_arguments) = None
   \<and> callTool example_runtime example_services ''docs_update_content'' (Some advertised_arguments)
       = (Inr \<lparr>content_blocks =
                 [\<lparr>cb_type = ''text'',
                   cb_text = ''An error occurred: [{"code": "invalid_type", "message": "Required"}]''\<rparr>],
               isError = True\<rparr>, [])
   \<and> js_valid docs_update_content_inputSchema both_arguments
   \<and> schema_parse UpdateDocContentInputSchema (Some both_arguments) \<noteq> None
   \<and> has_requests_array (Some both_arguments)\<close>
proof -
  have lacks: "\<not> has_requests_array (Some advertised_arguments)"
    by (simp add: has_requests_array_def advertised_arguments_def)
  have advertised: "js_valid docs_update_content_inputSchema advertised_arguments"
    by (simp add: advertised_arguments_def docs_update_content_inputSchema_def)
  have both: "js_valid docs_update_content_inputSchema both_arguments"
    "schema_parse UpdateDocContentInputSchema (Some both_arguments) \<noteq> None"
    by (simp_all add: both_arguments_def docs_update_content_inputSchema_def
        UpdateDocContentInputSchema_def schema_parse_def)
  have message: \<open>zod_message example_runtime UpdateDocContentInputSchema (Some advertised_arguments)
       = ''[{"code": "invalid_type", "message": "Required"}]''\<close>
    by (simp add: example_runtime_def)
  show ?thesis
    using lacks advertised both message
      docs_update_content_requires_requests [of "Some advertised_arguments" example_runtime
        example_services both_arguments]
    by simp
qed

text \<open>
  The last part of C6 as it is claimed (the two schemas accept disjoint arguments) fails:
  arguments with \<open>document_id\<close>, \<open>content\<close> and an empty \<open>requests\<close> array are accepted by
  the advertised schema, which allows members it does not name, and by the runtime
  schema, which drops members it does not name; the document update is issued.
\<close>

theorem docs_update_content_schemas_overlap_counterexample:
  "js_valid docs_update_content_inputSchema both_arguments
   \<and> schema_parse UpdateDocContentInputSchema (Some both_arguments)
       = Some [(''document_id'', JStr ''doc1''), (''requests'', JArr [])]
   \<and> callTool example_runtime example_services ''docs_update_content'' (Some both_arguments)
       = (Inr \<lparr>content_blocks = [\<lparr>cb_type = ''text'', cb_text = ''Document updated successfully''\<rparr>],
               isError = False\<rparr>,
          [ServiceCall ''updateDocument'' [(''document_id'', JStr ''doc1''), (''requests'', JArr [])]])"
  by (simp add: both_arguments_def docs_update_content_inputSchema_def advertised_section_def
      advertised_style_def advertised_color_def UpdateDocContentInputSchema_def schema_parse_def
      callTool_def callTool_try_def tool_case_def example_services_def text_response_def)

end
